theory Spec2Isabelle
  imports Complex_Main "HOL-Library.Sublist"
begin

section \<open>Values, features and data sources\<close>

text \<open>
  The dashboard scripts are written in a dynamically typed expression language. A value
  is null, a number or a text. A number is a double: NaN, an infinity, or a finite
  number, \<open>Num\<close> of the real number it stands for.
\<close>

datatype val = Null | NaN | PInf | NInf | Num real | Str string

text \<open>
  Reading a field that a feature does not have, or a key that a dictionary does not have,
  stops the evaluation with an error; the scripts' own helper \<open>GetVal\<close> exists
  "to safely get values even if field is missing from schema".
\<close>

datatype error = FieldNotFound string | KeyNotFound string

type_synonym 'a result = "error + 'a"

text \<open>A feature maps the field names of its schema to values; \<open>None\<close> is a field that
  the schema lacks, \<open>Some Null\<close> a field that is there and empty.\<close>

type_synonym feature = "string \<Rightarrow> val option"

record source =
  selectedFeatures :: "feature list"
  layer :: "feature list"

type_synonym dataSources = "string \<Rightarrow> source option"

text \<open>
  What the host computes is a parameter of every script, and nothing is assumed of it:
  \<^item> \<open>Text(value, pattern)\<close>, the conversion of a value to text (explicitly, or by
    \<open>+\<close> with a text operand), \<open>Round(value, places)\<close>, the reading of a text as a
    number, \<open>Lower\<close> and \<open>Trim\<close>;
  \<^item> the arithmetic of doubles: the sum, difference, product and quotient of two numbers,
    each rounded as the host rounds it, an infinity or NaN where it gives one;
  \<^item> the double that a decimal literal of a script denotes. It is used for \<open>0.01\<close>;
    the other literals of the scripts (0, 1, -1, 1000, 1000000, 1000000000) are doubles
    themselves.
  Comparing two doubles and taking the absolute value of one involve no rounding and are
  defined below.
\<close>

record platform =
  Text_fmt :: "val \<Rightarrow> string \<Rightarrow> string"
  Text_plain :: "val \<Rightarrow> string"
  Round :: "val \<Rightarrow> nat \<Rightarrow> val"
  Number_of_text :: "string \<Rightarrow> val"
  Lower :: "string \<Rightarrow> string"
  Trim :: "string \<Rightarrow> string"
  host_add :: "val \<Rightarrow> val \<Rightarrow> val"
  host_sub :: "val \<Rightarrow> val \<Rightarrow> val"
  host_mul :: "val \<Rightarrow> val \<Rightarrow> val"
  host_div :: "val \<Rightarrow> val \<Rightarrow> val"
  host_literal :: "real \<Rightarrow> val"

subsection \<open>Built-in functions with a fixed meaning\<close>

definition IsEmpty :: "val \<Rightarrow> bool" where
  "IsEmpty v = (v = Null \<or> v = Str [])"

definition IsNan :: "val \<Rightarrow> bool" where
  "IsNan v = (v = NaN)"

text \<open>What is no number counts as NaN where a number is expected.\<close>

definition numeric :: "val \<Rightarrow> val" where
  "numeric v = (case v of Null \<Rightarrow> NaN | Str s \<Rightarrow> NaN | _ \<Rightarrow> v)"

text \<open>\<open>Number(value)\<close>: null and the empty text count as 0, any other text is read by
  the host, and a text that is no number gives NaN.\<close>

definition Number :: "platform \<Rightarrow> val \<Rightarrow> val" where
  "Number P v = (case v of
       Null \<Rightarrow> Num 0
     | Str s \<Rightarrow> (if s = [] then Num 0 else numeric (Number_of_text P s))
     | _ \<Rightarrow> v)"

text \<open>Arithmetic converts both operands to numbers and is the host's from there.\<close>

definition arith :: "(val \<Rightarrow> val \<Rightarrow> val) \<Rightarrow> platform \<Rightarrow> val \<Rightarrow> val \<Rightarrow> val" where
  "arith host_op P a b = numeric (host_op (Number P a) (Number P b))"

definition add :: "platform \<Rightarrow> val \<Rightarrow> val \<Rightarrow> val" where
  "add P = arith (host_add P) P"

definition sub :: "platform \<Rightarrow> val \<Rightarrow> val \<Rightarrow> val" where
  "sub P = arith (host_sub P) P"

definition mul :: "platform \<Rightarrow> val \<Rightarrow> val \<Rightarrow> val" where
  "mul P = arith (host_mul P) P"

definition divide_val :: "platform \<Rightarrow> val \<Rightarrow> val \<Rightarrow> val" where
  "divide_val P = arith (host_div P) P"

definition Abs :: "platform \<Rightarrow> val \<Rightarrow> val" where
  "Abs P a = (case Number P a of Num x \<Rightarrow> Num \<bar>x\<bar> | PInf \<Rightarrow> PInf | NInf \<Rightarrow> PInf | _ \<Rightarrow> NaN)"

text \<open>The order of the doubles: a comparison with NaN is false.\<close>

definition num_less :: "val \<Rightarrow> val \<Rightarrow> bool" where
  "num_less a b = (case a of
       Num x \<Rightarrow> (case b of Num y \<Rightarrow> x < y | PInf \<Rightarrow> True | _ \<Rightarrow> False)
     | NInf \<Rightarrow> (case b of Num y \<Rightarrow> True | PInf \<Rightarrow> True | _ \<Rightarrow> False)
     | _ \<Rightarrow> False)"

definition num_le :: "val \<Rightarrow> val \<Rightarrow> bool" where
  "num_le a b = (case a of
       Num x \<Rightarrow> (case b of Num y \<Rightarrow> x \<le> y | PInf \<Rightarrow> True | _ \<Rightarrow> False)
     | NInf \<Rightarrow> (case b of Num y \<Rightarrow> True | PInf \<Rightarrow> True | NInf \<Rightarrow> True | _ \<Rightarrow> False)
     | PInf \<Rightarrow> (case b of PInf \<Rightarrow> True | _ \<Rightarrow> False)
     | _ \<Rightarrow> False)"

text \<open>Comparisons convert both operands to numbers.\<close>

definition lt :: "platform \<Rightarrow> val \<Rightarrow> val \<Rightarrow> bool" where
  "lt P a b = num_less (Number P a) (Number P b)"

definition gt :: "platform \<Rightarrow> val \<Rightarrow> val \<Rightarrow> bool" where
  "gt P a b = num_less (Number P b) (Number P a)"

definition ge :: "platform \<Rightarrow> val \<Rightarrow> val \<Rightarrow> bool" where
  "ge P a b = num_le (Number P b) (Number P a)"

text \<open>\<open>text + value\<close> and \<open>value + text\<close> concatenate the text forms.\<close>

definition toText :: "platform \<Rightarrow> val \<Rightarrow> string" where
  "toText P v = (case v of Str s \<Rightarrow> s | _ \<Rightarrow> Text_plain P v)"

text \<open>\<open>feature[key]\<close> and \<open>HasKey(feature, key)\<close>.\<close>

definition index :: "feature \<Rightarrow> string \<Rightarrow> val result" where
  "index feat key = (case feat key of None \<Rightarrow> Inl (FieldNotFound key) | Some v \<Rightarrow> Inr v)"

definition HasKey :: "(string \<Rightarrow> 'a option) \<Rightarrow> string \<Rightarrow> bool" where
  "HasKey d key = (d key \<noteq> None)"

text \<open>The helper of the 4D+ and truck scripts, \<open>GetVal(feat, key)\<close>: the field when
  the feature has it, null otherwise. Under the test of \<open>HasKey\<close> the read cannot
  fail.\<close>

definition GetVal :: "feature \<Rightarrow> string \<Rightarrow> val" where
  "GetVal feat key = (if HasKey feat key then the (feat key) else Null)"

text \<open>\<open>$dataSources[key]\<close>.\<close>

definition lookup :: "dataSources \<Rightarrow> string \<Rightarrow> source result" where
  "lookup ds key = (case ds key of None \<Rightarrow> Inl (KeyNotFound key) | Some s \<Rightarrow> Inr s)"

text \<open>\<open>Count\<close> and \<open>First\<close> of a feature set; the scripts call \<open>First\<close> under
  \<open>Count(...) > 0\<close> only.\<close>

definition Count :: "'a list \<Rightarrow> nat" where
  "Count xs = length xs"

definition First :: "'a list \<Rightarrow> 'a" where
  "First xs = hd xs"

text \<open>\<open>Replace(text, searchText, replacementText)\<close> replaces every occurrence of the
  search text, from left to right.\<close>

function Replace :: "string \<Rightarrow> string \<Rightarrow> string \<Rightarrow> string" where
  "Replace [] pat rep = []"
| "Replace (c # cs) pat rep =
     (if pat \<noteq> [] \<and> prefix pat (c # cs)
      then rep @ Replace (drop (length pat) (c # cs)) pat rep
      else c # Replace cs pat rep)"
  by pat_completeness auto
termination
  by (relation "measure (\<lambda>(s, pat, rep). length s)") (auto simp: Suc_le_eq)

text \<open>\<open>Sum(features, field)\<close>: the sum of the field over all features, an empty value
  counting as 0, added up from 0 in the order of the features.\<close>

fun sum_from :: "platform \<Rightarrow> val \<Rightarrow> feature list \<Rightarrow> string \<Rightarrow> val result" where
  "sum_from P acc [] key = Inr acc"
| "sum_from P acc (f # fs) key =
     (case index f key of
        Inl e \<Rightarrow> Inl e
      | Inr v \<Rightarrow> sum_from P (add P acc v) fs key)"

definition Sum_field :: "platform \<Rightarrow> feature list \<Rightarrow> string \<Rightarrow> val result" where
  "Sum_field P fs key = sum_from P (Num 0) fs key"

text \<open>\<open>Distinct(features, field)\<close>: the distinct values of the field.\<close>

fun Distinct :: "feature list \<Rightarrow> string \<Rightarrow> val list result" where
  "Distinct [] key = Inr []"
| "Distinct (f # fs) key =
     (case index f key of
        Inl e \<Rightarrow> Inl e
      | Inr v \<Rightarrow> (case Distinct fs key of
                   Inl e \<Rightarrow> Inl e
                 | Inr vs \<Rightarrow> Inr (List.insert v vs)))"

section \<open>What every script shares\<close>

definition selectionID :: string where
  "selectionID = ''dataSource_56-19abd51320a-layer-1-19abd51336a-layer-3-selection''"

definition deriveFullLayerID :: "string \<Rightarrow> string" where
  "deriveFullLayerID sel = Replace sel ''-selection'' ''''"

definition fullLayerID :: string where
  "fullLayerID = deriveFullLayerID selectionID"

record text_style =
  text_size :: nat
  bold :: bool
  color :: string
  italic :: bool
  underline :: bool
  strike :: bool

record widget_output =
  out_value :: string
  out_text :: text_style

definition styled :: "nat \<Rightarrow> string \<Rightarrow> widget_output" where
  "styled sz displayText =
     \<lparr>out_value = displayText,
      out_text = \<lparr>text_size = sz, bold = True, color = ''rgb(0, 86, 169)'',
                  italic = False, underline = False, strike = False\<rparr>\<rparr>"

text \<open>
  The frame of each script, the same lines in all eight: read the selection source, test
  the key of the full layer, branch on the number of selected features, and return the
  display text with the fixed styling. \<open>caseA\<close> gets the selected features and the
  full layer, \<open>caseB\<close> the full layer; \<open>sz\<close> and \<open>errText\<close> are the text size and
  the error text of the script.
\<close>

definition script_frame ::
  "nat \<Rightarrow> string \<Rightarrow> (feature list \<Rightarrow> feature list \<Rightarrow> string result) \<Rightarrow>
   (feature list \<Rightarrow> string result) \<Rightarrow> dataSources \<Rightarrow> widget_output result" where
  "script_frame sz errText caseA caseB ds =
     (case lookup ds selectionID of
        Inl e \<Rightarrow> Inl e
      | Inr selectionSource \<Rightarrow>
          (if HasKey ds fullLayerID then
             (case lookup ds fullLayerID of
                Inl e \<Rightarrow> Inl e
              | Inr fullSource \<Rightarrow>
                  (case (if Count (selectedFeatures selectionSource) > 0
                         then caseA (selectedFeatures selectionSource) (layer fullSource)
                         else caseB (layer fullSource)) of
                     Inl e \<Rightarrow> Inl e
                   | Inr displayText \<Rightarrow> Inr (styled sz displayText)))
           else Inr (styled sz errText)))"

definition noAccess :: string where
  "noAccess = ''Error: The widget does not have access to the data.''"

section \<open>The fingerprint fallback of the single-field scripts\<close>

text \<open>
  The AADT, fatal-crash, projects and cost scripts resolve their field by the same lines,
  with another field name. The loop is
  \<open>for (var f in allFeats) { if (Abs(f["Total_Miles"] - targetMiles) < 0.01)
  { value = f[field]; break; } }\<close>.
\<close>

fun scan_fingerprint :: "platform \<Rightarrow> val \<Rightarrow> string \<Rightarrow> feature list \<Rightarrow> val \<Rightarrow> val result" where
  "scan_fingerprint P targetMiles field [] value = Inr value"
| "scan_fingerprint P targetMiles field (f # fs) value =
     (case index f ''Total_Miles'' of
        Inl e \<Rightarrow> Inl e
      | Inr m \<Rightarrow>
          (if lt P (Abs P (sub P m targetMiles)) (host_literal P 0.01)
           then index f field
           else scan_fingerprint P targetMiles field fs value))"

text \<open>The direct read of the field, then the fallback when the value is empty.\<close>

definition resolve_field :: "platform \<Rightarrow> feature \<Rightarrow> feature list \<Rightarrow> string \<Rightarrow> val result" where
  "resolve_field P feat allFeats field =
     (case index feat field of
        Inl e \<Rightarrow> Inl e
      | Inr value \<Rightarrow>
          (if IsEmpty value then
             (case index feat ''Total_Miles'' of
                Inl e \<Rightarrow> Inl e
              | Inr targetMiles \<Rightarrow>
                  (if \<not> IsEmpty targetMiles
                   then scan_fingerprint P targetMiles field allFeats value
                   else Inr value))
           else Inr value))"

section \<open>The scripts\<close>

subsection \<open>Corridor title (\<open>corridor_title.js\<close>)\<close>

definition corridor_title_caseA :: "platform \<Rightarrow> feature list \<Rightarrow> feature list \<Rightarrow> string result" where
  "corridor_title_caseA P selected allFeats =
     (case index (First selected) ''Corridor'' of
        Inl e \<Rightarrow> Inl e
      | Inr corridor \<Rightarrow> Inr (toText P corridor @ '' Corridor Profile''))"

definition corridor_title_caseB :: "feature list \<Rightarrow> string result" where
  "corridor_title_caseB allFeatures =
     (case Distinct allFeatures ''Corridor'' of
        Inl e \<Rightarrow> Inl e
      | Inr uniqueCorridors \<Rightarrow>
          (let totalCount = Count uniqueCorridors
           in Inr ''Fort Worth District Corridors with Greatest Needs''))"

definition corridor_title :: "platform \<Rightarrow> dataSources \<Rightarrow> widget_output result" where
  "corridor_title P = script_frame 22 noAccess (corridor_title_caseA P) corridor_title_caseB"

subsection \<open>Number of fatal crashes (\<open>Number_Of_Fatal_Crashes.js\<close>)\<close>

definition fatal_crashes_caseA :: "platform \<Rightarrow> feature list \<Rightarrow> feature list \<Rightarrow> string result" where
  "fatal_crashes_caseA P selected allFeats =
     (case resolve_field P (First selected) allFeats ''Number_Of_Fatal_Crashes'' of
        Inl e \<Rightarrow> Inl e
      | Inr fatalCrashes \<Rightarrow>
          Inr (if \<not> IsEmpty fatalCrashes then Text_fmt P fatalCrashes ''#,###'' else ''0''))"

definition fatal_crashes_caseB :: "platform \<Rightarrow> feature list \<Rightarrow> string result" where
  "fatal_crashes_caseB P allFeatures =
     (case Sum_field P allFeatures ''Number_Of_Fatal_Crashes'' of
        Inl e \<Rightarrow> Inl e
      | Inr totalFatalCrashes \<Rightarrow> Inr (Text_fmt P totalFatalCrashes ''#,###''))"

definition fatal_crashes :: "platform \<Rightarrow> dataSources \<Rightarrow> widget_output result" where
  "fatal_crashes P = script_frame 20 noAccess (fatal_crashes_caseA P) (fatal_crashes_caseB P)"

subsection \<open>Total miles (\<open>total_miles.js\<close>)\<close>

definition total_miles_caseA :: "platform \<Rightarrow> feature list \<Rightarrow> feature list \<Rightarrow> string result" where
  "total_miles_caseA P selected allFeats =
     (case index (First selected) ''Total_Miles'' of
        Inl e \<Rightarrow> Inl e
      | Inr miles \<Rightarrow> Inr (Text_fmt P miles ''#,###.0'' @ '' mi''))"

definition total_miles_caseB :: "platform \<Rightarrow> feature list \<Rightarrow> string result" where
  "total_miles_caseB P allFeatures =
     (case Sum_field P allFeatures ''Total_Miles'' of
        Inl e \<Rightarrow> Inl e
      | Inr totalMiles \<Rightarrow> Inr (Text_fmt P totalMiles ''#,###.0'' @ '' mi''))"

definition total_miles :: "platform \<Rightarrow> dataSources \<Rightarrow> widget_output result" where
  "total_miles P = script_frame 20 noAccess (total_miles_caseA P) (total_miles_caseB P)"

subsection \<open>Projects under construction (\<open>AADT.js\<close>, second script)\<close>

definition projects_caseA :: "platform \<Rightarrow> feature list \<Rightarrow> feature list \<Rightarrow> string result" where
  "projects_caseA P selected allFeats =
     (case resolve_field P (First selected) allFeats ''Projects_Construction'' of
        Inl e \<Rightarrow> Inl e
      | Inr value \<Rightarrow> Inr (if \<not> IsEmpty value then Text_fmt P value ''#,###'' else ''0''))"

definition projects_caseB :: "platform \<Rightarrow> feature list \<Rightarrow> string result" where
  "projects_caseB P allFeatures =
     (case Sum_field P allFeatures ''Projects_Construction'' of
        Inl e \<Rightarrow> Inl e
      | Inr totalValue \<Rightarrow> Inr (Text_fmt P totalValue ''#,###''))"

definition projects :: "platform \<Rightarrow> dataSources \<Rightarrow> widget_output result" where
  "projects P = script_frame 20 noAccess (projects_caseA P) (projects_caseB P)"

subsection \<open>Construction cost, with the compact dollar format (unnamed script)\<close>

definition formatCompact :: "platform \<Rightarrow> val \<Rightarrow> string" where
  "formatCompact P n =
     (if IsEmpty n then ''$0''
      else (let abs_n = Abs P n in
        if lt P abs_n (Num 1000) then ''$'' @ toText P (Round P n 1)
        else if lt P abs_n (Num 1000000) then
          ''$'' @ toText P (Round P (divide_val P n (Num 1000)) 1) @ ''K''
        else if lt P abs_n (Num 1000000000) then
          ''$'' @ toText P (Round P (divide_val P n (Num 1000000)) 1) @ ''M''
        else ''$'' @ toText P (Round P (divide_val P n (Num 1000000000)) 1) @ ''B''))"

definition cost_caseA :: "platform \<Rightarrow> feature list \<Rightarrow> feature list \<Rightarrow> string result" where
  "cost_caseA P selected allFeats =
     (case resolve_field P (First selected) allFeats ''Project_Cost_Construction'' of
        Inl e \<Rightarrow> Inl e
      | Inr value \<Rightarrow> Inr (if \<not> IsEmpty value then formatCompact P value else ''$0''))"

definition cost_caseB :: "platform \<Rightarrow> feature list \<Rightarrow> string result" where
  "cost_caseB P allFeatures =
     (case Sum_field P allFeatures ''Project_Cost_Construction'' of
        Inl e \<Rightarrow> Inl e
      | Inr totalValue \<Rightarrow> Inr (formatCompact P totalValue))"

definition cost :: "platform \<Rightarrow> dataSources \<Rightarrow> widget_output result" where
  "cost P = script_frame 20 noAccess (cost_caseA P) (cost_caseB P)"

subsection \<open>AADT (\<open>AADT.js\<close>, first script)\<close>

definition aadt_caseA :: "platform \<Rightarrow> feature list \<Rightarrow> feature list \<Rightarrow> string result" where
  "aadt_caseA P selected allFeats =
     (case resolve_field P (First selected) allFeats ''AADT'' of
        Inl e \<Rightarrow> Inl e
      | Inr valAADT \<Rightarrow>
          Inr (if \<not> IsEmpty valAADT \<and> gt P valAADT (Num 0)
               then Text_fmt P valAADT ''#,###'' else ''0''))"

text \<open>The loop of case B; the state is \<open>(sumWeightedAADT, sumTotalMiles)\<close>.\<close>

fun aadt_accumulate :: "platform \<Rightarrow> feature list \<Rightarrow> val \<times> val \<Rightarrow> (val \<times> val) result" where
  "aadt_accumulate P [] st = Inr st"
| "aadt_accumulate P (f # fs) (sumWeightedAADT, sumTotalMiles) =
     (case index f ''AADT'' of
        Inl e \<Rightarrow> Inl e
      | Inr aadt \<Rightarrow>
          (case index f ''Total_Miles'' of
             Inl e \<Rightarrow> Inl e
           | Inr totalMiles \<Rightarrow>
               (if \<not> IsEmpty aadt \<and> \<not> IsEmpty totalMiles
                   \<and> gt P (Number P aadt) (Num 0) \<and> gt P (Number P totalMiles) (Num 0)
                then aadt_accumulate P fs
                       (add P sumWeightedAADT (mul P (Number P aadt) (Number P totalMiles)),
                        add P sumTotalMiles (Number P totalMiles))
                else aadt_accumulate P fs (sumWeightedAADT, sumTotalMiles))))"

definition aadt_caseB :: "platform \<Rightarrow> feature list \<Rightarrow> string result" where
  "aadt_caseB P allFeatures =
     (case aadt_accumulate P allFeatures (Num 0, Num 0) of
        Inl e \<Rightarrow> Inl e
      | Inr (sumWeightedAADT, sumTotalMiles) \<Rightarrow>
          Inr (if gt P sumTotalMiles (Num 0)
               then Text_fmt P (Round P (divide_val P sumWeightedAADT sumTotalMiles) 0) ''#,###''
               else ''0''))"

definition aadt :: "platform \<Rightarrow> dataSources \<Rightarrow> widget_output result" where
  "aadt P = script_frame 20 noAccess (aadt_caseA P) (aadt_caseB P)"

subsection \<open>4D+ miles (\<open>4D+_miles.js\<close>)\<close>

text \<open>Strategy A: the first feature of the full layer with the same normalised \<open>HWY\<close>.
  The state is \<open>(val, foundMatch)\<close>.\<close>

fun hwy_scan :: "platform \<Rightarrow> string \<Rightarrow> feature list \<Rightarrow> val \<times> bool \<Rightarrow> val \<times> bool" where
  "hwy_scan P targetKey [] st = st"
| "hwy_scan P targetKey (f # fs) st =
     (let fHWY = GetVal f ''HWY'' in
      if \<not> IsEmpty fHWY \<and> Lower P (Trim P (toText P fHWY)) = targetKey
      then (GetVal f ''four_D_plus_miles'', True)
      else hwy_scan P targetKey fs st)"

text \<open>Strategy B: the first feature of the full layer with a \<open>Total_Miles\<close> within 0.01.\<close>

fun miles_scan :: "platform \<Rightarrow> val \<Rightarrow> feature list \<Rightarrow> val \<times> bool \<Rightarrow> val \<times> bool" where
  "miles_scan P targetMiles [] st = st"
| "miles_scan P targetMiles (f # fs) st =
     (let fMiles = GetVal f ''Total_Miles'' in
      if \<not> IsEmpty fMiles
         \<and> lt P (Abs P (sub P (Number P fMiles) (Number P targetMiles))) (host_literal P 0.01)
      then (GetVal f ''four_D_plus_miles'', True)
      else miles_scan P targetMiles fs st)"

text \<open>The body of the loop over the selected features, up to the resolved \<open>val\<close>.\<close>

definition resolve_4d :: "platform \<Rightarrow> feature \<Rightarrow> feature list \<Rightarrow> val" where
  "resolve_4d P selFeature allFeats =
     (let val = GetVal selFeature ''four_D_plus_miles'' in
      if IsEmpty val then
        (let targetHWY = GetVal selFeature ''HWY'';
             stA = (if \<not> IsEmpty targetHWY
                    then hwy_scan P (Lower P (Trim P (toText P targetHWY))) allFeats (val, False)
                    else (val, False))
         in if \<not> snd stA then
              (let targetMiles = GetVal selFeature ''Total_Miles'' in
               if \<not> IsEmpty targetMiles
               then fst (miles_scan P targetMiles allFeats stA)
               else fst stA)
            else fst stA)
      else val)"

fun sum_selected_4d :: "platform \<Rightarrow> feature list \<Rightarrow> feature list \<Rightarrow> val \<Rightarrow> val" where
  "sum_selected_4d P [] allFeats miles4Dplus = miles4Dplus"
| "sum_selected_4d P (selFeature # rest) allFeats miles4Dplus =
     (let val = resolve_4d P selFeature allFeats in
      sum_selected_4d P rest allFeats
        (if \<not> IsEmpty val then add P miles4Dplus (Number P val) else miles4Dplus))"

definition four_d_caseA :: "platform \<Rightarrow> feature list \<Rightarrow> feature list \<Rightarrow> string result" where
  "four_d_caseA P selected allFeats =
     Inr (Text_fmt P (sum_selected_4d P selected allFeats (Num 0)) ''#,###.0'' @ '' mi'')"

definition four_d_caseB :: "platform \<Rightarrow> feature list \<Rightarrow> string result" where
  "four_d_caseB P allFeatures =
     (case Sum_field P allFeatures ''four_D_plus_miles'' of
        Inl e \<Rightarrow> Inl e
      | Inr total4DplusMiles \<Rightarrow> Inr (Text_fmt P total4DplusMiles ''#,###.0'' @ '' mi''))"

definition four_d_miles :: "platform \<Rightarrow> dataSources \<Rightarrow> widget_output result" where
  "four_d_miles P = script_frame 20 noAccess (four_d_caseA P) (four_d_caseB P)"

subsection \<open>Truck AADT, truck share and tons (\<open>AADT.js\<close>, third script)\<close>

definition FormatCompact :: "platform \<Rightarrow> val \<Rightarrow> string" where
  "FormatCompact P n =
     (if IsEmpty n \<or> IsNan n then ''0''
      else (let val = Number P n;
                absVal = Abs P val;
                sign = (if lt P val (Num 0) then Num (- 1) else Num 1);
                (num, suffix) =
                  (if ge P absVal (Num 1000000000) then (divide_val P absVal (Num 1000000000), ''B'')
                   else if ge P absVal (Num 1000000) then (divide_val P absVal (Num 1000000), ''M'')
                   else if ge P absVal (Num 1000) then (divide_val P absVal (Num 1000), ''K'')
                   else (absVal, []));
                rounded = Round P (mul P num sign) 1
            in Text_fmt P rounded ''#.################'' @ suffix))"

text \<open>The fallback loop of case A; the state is \<open>(valTruckAADT, valTotalAADT, valTons)\<close>.\<close>

fun truck_scan :: "platform \<Rightarrow> val \<Rightarrow> feature list \<Rightarrow> val \<times> val \<times> val \<Rightarrow> val \<times> val \<times> val" where
  "truck_scan P targetMiles [] st = st"
| "truck_scan P targetMiles (f # fs) st =
     (let fMiles = GetVal f ''Total_Miles'' in
      if \<not> IsEmpty fMiles
         \<and> lt P (Abs P (sub P (Number P fMiles) (Number P targetMiles))) (host_literal P 0.01)
      then (GetVal f ''Truck_AADT'', GetVal f ''AADT'', GetVal f ''Tons'')
      else truck_scan P targetMiles fs st)"

text \<open>Case A up to the resolved values and \<open>hasData\<close>.\<close>

definition truck_caseA_values :: "platform \<Rightarrow> feature \<Rightarrow> feature list \<Rightarrow> (val \<times> val \<times> val) \<times> bool" where
  "truck_caseA_values P selFeature allFeats =
     (let valTruckAADT = GetVal selFeature ''Truck_AADT'';
          valTotalAADT = GetVal selFeature ''AADT'';
          valTons = GetVal selFeature ''Tons'';
          st = (if IsEmpty valTruckAADT \<or> IsEmpty valTons then
                  (let targetMiles = GetVal selFeature ''Total_Miles'' in
                   if \<not> IsEmpty targetMiles
                   then truck_scan P targetMiles allFeats (valTruckAADT, valTotalAADT, valTons)
                   else (valTruckAADT, valTotalAADT, valTons))
                else (valTruckAADT, valTotalAADT, valTons))
      in (st, \<not> IsEmpty (fst st)))"

text \<open>The loop of case B; the state is
  \<open>(sumWeightedTruckAADT, sumWeightedTotalAADT, sumWeightedTons, sumTotalMiles)\<close>.\<close>

fun truck_accumulate ::
  "platform \<Rightarrow> feature list \<Rightarrow> val \<times> val \<times> val \<times> val \<Rightarrow> val \<times> val \<times> val \<times> val" where
  "truck_accumulate P [] st = st"
| "truck_accumulate P (f # fs) (sumTruck, sumTotal, sumTons, sumMiles) =
     (let n_t_aadt = Number P (GetVal f ''Truck_AADT'');
          n_aadt = Number P (GetVal f ''AADT'');
          n_tons = Number P (GetVal f ''Tons'');
          n_miles = Number P (GetVal f ''Total_Miles'')
      in if gt P n_t_aadt (Num 0) \<and> gt P n_miles (Num 0)
         then truck_accumulate P fs
                (add P sumTruck (mul P n_t_aadt n_miles),
                 add P sumTotal (mul P n_aadt n_miles),
                 add P sumTons (mul P n_tons n_miles),
                 add P sumMiles n_miles)
         else truck_accumulate P fs (sumTruck, sumTotal, sumTons, sumMiles))"

definition truck_caseB_values :: "platform \<Rightarrow> feature list \<Rightarrow> (val \<times> val \<times> val) \<times> bool" where
  "truck_caseB_values P allFeatures =
     (case truck_accumulate P allFeatures (Num 0, Num 0, Num 0, Num 0) of
        (sumTruck, sumTotal, sumTons, sumMiles) \<Rightarrow>
          (if gt P sumMiles (Num 0)
           then ((divide_val P sumTruck sumMiles, divide_val P sumTotal sumMiles,
                  divide_val P sumTons sumMiles), True)
           else ((Num 0, Num 0, Num 0), False)))"

text \<open>The output \<open>Truck_AADT / Truck % / Tons\<close>.\<close>

definition truck_format :: "platform \<Rightarrow> (val \<times> val \<times> val) \<times> bool \<Rightarrow> string" where
  "truck_format P r =
     (case r of ((valTruckAADT, valTotalAADT, valTons), hasData) \<Rightarrow>
        (if hasData then
           (let numTruck = Number P valTruckAADT;
                numTotal = Number P valTotalAADT;
                numTons = Number P valTons;
                textTruckAADT = Text_fmt P (Round P numTruck 0) ''#,###'';
                textPercent = (if gt P numTotal (Num 0)
                               then Text_fmt P (divide_val P numTruck numTotal) ''#%''
                               else ''0%'');
                textTons = FormatCompact P numTons
            in textTruckAADT @ '' / '' @ textPercent @ '' / '' @ textTons @ '' Tons'')
         else ''0 / 0% / 0''))"

definition truck_caseA :: "platform \<Rightarrow> feature list \<Rightarrow> feature list \<Rightarrow> string result" where
  "truck_caseA P selected allFeats =
     Inr (truck_format P (truck_caseA_values P (First selected) allFeats))"

definition truck_caseB :: "platform \<Rightarrow> feature list \<Rightarrow> string result" where
  "truck_caseB P allFeatures = Inr (truck_format P (truck_caseB_values P allFeatures))"

definition truck_stats :: "platform \<Rightarrow> dataSources \<Rightarrow> widget_output result" where
  "truck_stats P =
     script_frame 20 ''Error: Data Source Not Found'' (truck_caseA P) (truck_caseB P)"

section \<open>Notions used in the statements\<close>

text \<open>The difference of two fingerprint values, as the host computes it, is strictly
  less than 0.01 in absolute value.\<close>

definition within_tolerance :: "platform \<Rightarrow> val \<Rightarrow> val \<Rightarrow> bool" where
  "within_tolerance P a b = lt P (Abs P (sub P a b)) (host_literal P 0.01)"

text \<open>A feature of the full layer matches a fingerprint when its own is not empty and
  within the tolerance; it matches a normalised highway name when its own is not empty
  and normalises to the same text.\<close>

definition miles_match :: "platform \<Rightarrow> val \<Rightarrow> feature \<Rightarrow> bool" where
  "miles_match P targetMiles f =
     (\<not> IsEmpty (GetVal f ''Total_Miles'')
      \<and> within_tolerance P (GetVal f ''Total_Miles'') targetMiles)"

definition hwy_match :: "platform \<Rightarrow> string \<Rightarrow> feature \<Rightarrow> bool" where
  "hwy_match P targetKey f =
     (\<not> IsEmpty (GetVal f ''HWY'')
      \<and> Lower P (Trim P (toText P (GetVal f ''HWY''))) = targetKey)"

text \<open>An identifier with the trailing suffix stripped, as the specification words the
  derivation of the full-layer identifier.\<close>

definition strip_trailing :: "string \<Rightarrow> string \<Rightarrow> string" where
  "strip_trailing pat s = (if suffix pat s then take (length s - length pat) s else s)"

text \<open>The eight scripts with the text size each one returns.\<close>

definition all_scripts :: "(nat \<times> (platform \<Rightarrow> dataSources \<Rightarrow> widget_output result)) list" where
  "all_scripts = [(22, corridor_title), (20, fatal_crashes), (20, total_miles),
     (20, four_d_miles), (20, aadt), (20, projects), (20, truck_stats), (20, cost)]"

text \<open>A value that is present and strictly greater than 0.\<close>

definition present_positive :: "platform \<Rightarrow> val \<Rightarrow> bool" where
  "present_positive P v = (\<not> IsEmpty v \<and> gt P v (Num 0))"

definition both_positive :: "platform \<Rightarrow> string \<Rightarrow> string \<Rightarrow> feature \<Rightarrow> bool" where
  "both_positive P valueField weightField f =
     (present_positive P (GetVal f valueField) \<and> present_positive P (GetVal f weightField))"

text \<open>The sum of a list of values: added up from 0, in the order of the list, by the
  addition of the host.\<close>

definition sum_of :: "platform \<Rightarrow> val list \<Rightarrow> val" where
  "sum_of P vs = foldl (add P) (Num 0) vs"

text \<open>The sum of the weights and the sum of value times weight over the features that
  a test lets count.\<close>

definition weight_over :: "platform \<Rightarrow> (feature \<Rightarrow> bool) \<Rightarrow> string \<Rightarrow> feature list \<Rightarrow> val" where
  "weight_over P counts weightField fs =
     sum_of P (map (\<lambda>f. Number P (GetVal f weightField)) (filter counts fs))"

definition product_over ::
  "platform \<Rightarrow> (feature \<Rightarrow> bool) \<Rightarrow> string \<Rightarrow> string \<Rightarrow> feature list \<Rightarrow> val" where
  "product_over P counts valueField weightField fs =
     sum_of P (map (\<lambda>f. mul P (Number P (GetVal f valueField)) (Number P (GetVal f weightField)))
                  (filter counts fs))"

text \<open>The weighted average in the words of the specification: sum(value times weight) /
  sum(weight) over the features where both value and weight are present and greater
  than 0, and 0 when the total weight is 0.\<close>

definition weightedAverage_spec :: "platform \<Rightarrow> string \<Rightarrow> string \<Rightarrow> feature list \<Rightarrow> val" where
  "weightedAverage_spec P valueField weightField fs =
     (if weight_over P (both_positive P valueField weightField) weightField fs = Num 0 then Num 0
      else divide_val P
             (product_over P (both_positive P valueField weightField) valueField weightField fs)
             (weight_over P (both_positive P valueField weightField) weightField fs))"

text \<open>The sum of a field over a list of features, an empty value counting as 0.\<close>

definition field_total :: "platform \<Rightarrow> string \<Rightarrow> feature list \<Rightarrow> val" where
  "field_total P key fs = sum_of P (map (\<lambda>f. GetVal f key) fs)"

text \<open>The fields that the scripts read from the features of the full layer without
  \<open>GetVal\<close> when nothing is selected.\<close>

definition layer_fields :: "string list" where
  "layer_fields = [''Number_Of_Fatal_Crashes'', ''Projects_Construction'',
     ''Project_Cost_Construction'', ''Total_Miles'', ''four_D_plus_miles'', ''AADT'',
     ''Corridor'']"

section \<open>Example data\<close>

text \<open>A stand-in for the host, used to run the scripts on examples: every number is
  shown as \<open>#\<close>, and the arithmetic of finite numbers is exact, which is what the
  arithmetic of doubles gives wherever the exact result is a double.\<close>

definition exact :: "(real \<Rightarrow> real \<Rightarrow> real) \<Rightarrow> val \<Rightarrow> val \<Rightarrow> val" where
  "exact f a b = (case a of Num x \<Rightarrow> (case b of Num y \<Rightarrow> Num (f x y) | _ \<Rightarrow> NaN) | _ \<Rightarrow> NaN)"

definition exact_div :: "val \<Rightarrow> val \<Rightarrow> val" where
  "exact_div a b =
     (case a of
        Num x \<Rightarrow> (case b of Num y \<Rightarrow> (if y = 0 then NaN else Num (x / y)) | _ \<Rightarrow> NaN)
      | _ \<Rightarrow> NaN)"

definition plain_host :: platform where
  "plain_host = \<lparr>Text_fmt = (\<lambda>v p. ''#''), Text_plain = (\<lambda>v. ''#''), Round = (\<lambda>v n. v),
     Number_of_text = (\<lambda>s. NaN), Lower = (\<lambda>s. s), Trim = (\<lambda>s. s),
     host_add = exact (+), host_sub = exact (-), host_mul = exact (*), host_div = exact_div,
     host_literal = Num\<rparr>"

text \<open>Two features as a selection gives them, one feature of the full layer with every
  field, and the data sources built from the selected features and the full layer.\<close>

definition example_first :: feature where
  "example_first = [''Corridor'' \<mapsto> Str ''I-35W'', ''Total_Miles'' \<mapsto> Num 5,
     ''AADT'' \<mapsto> Num 0, ''Number_Of_Fatal_Crashes'' \<mapsto> Null,
     ''Projects_Construction'' \<mapsto> Null, ''Project_Cost_Construction'' \<mapsto> Null,
     ''four_D_plus_miles'' \<mapsto> Num 1, ''Truck_AADT'' \<mapsto> Null]"

definition example_second :: feature where
  "example_second = [''Corridor'' \<mapsto> Str ''US-287'', ''Total_Miles'' \<mapsto> Num 3,
     ''AADT'' \<mapsto> Num 700, ''Number_Of_Fatal_Crashes'' \<mapsto> Num 4,
     ''Projects_Construction'' \<mapsto> Num 6, ''Project_Cost_Construction'' \<mapsto> Num 500000,
     ''four_D_plus_miles'' \<mapsto> Num 2, ''Truck_AADT'' \<mapsto> Num 70, ''Tons'' \<mapsto> Num 8]"

definition example_full :: feature where
  "example_full = [''Corridor'' \<mapsto> Str ''I-35W'', ''Total_Miles'' \<mapsto> Num 5,
     ''AADT'' \<mapsto> Num 900, ''Number_Of_Fatal_Crashes'' \<mapsto> Num 3,
     ''Projects_Construction'' \<mapsto> Num 2, ''Project_Cost_Construction'' \<mapsto> Num 2500000,
     ''four_D_plus_miles'' \<mapsto> Num 1, ''Truck_AADT'' \<mapsto> Num 90, ''Tons'' \<mapsto> Num 12]"

definition example_sources :: "feature list \<Rightarrow> feature list \<Rightarrow> dataSources" where
  "example_sources selected allFeats =
     [selectionID \<mapsto> \<lparr>selectedFeatures = selected, layer = []\<rparr>,
      fullLayerID \<mapsto> \<lparr>selectedFeatures = [], layer = allFeats\<rparr>]"

section \<open>Basic facts\<close>

lemma numeric_Number: "numeric (Number P v) = Number P v"
  by (cases v) (auto simp: Number_def numeric_def split: val.splits)

lemma Number_idem: "Number P (Number P v) = Number P v"
  using numeric_Number [of P v]
  by (cases "Number P v") (auto simp: Number_def numeric_def)

lemma Number_Num: "Number P (Num r) = Num r"
  by (simp add: Number_def)

lemma Number_NaN: "Number P NaN = NaN"
  by (simp add: Number_def)

lemma Number_numeric: "Number P (numeric v) = numeric v"
  by (cases v) (simp_all add: Number_def numeric_def)

lemma Number_arith: "Number P (arith host_op P a b) = arith host_op P a b"
  by (simp add: arith_def Number_numeric)

lemma arith_Number: "arith host_op P (Number P a) (Number P b) = arith host_op P a b"
  by (simp add: arith_def Number_idem)

lemma arith_Number_left: "arith host_op P (Number P a) b = arith host_op P a b"
  by (simp add: arith_def Number_idem)

lemma arith_Number_right: "arith host_op P a (Number P b) = arith host_op P a b"
  by (simp add: arith_def Number_idem)

lemma GetVal_Some: "f k = Some v \<Longrightarrow> GetVal f k = v"
  by (simp add: GetVal_def HasKey_def)

lemma GetVal_None: "f k = None \<Longrightarrow> GetVal f k = Null"
  by (simp add: GetVal_def HasKey_def)

lemma tolerance_test:
  "lt P (Abs P (sub P m t)) (host_literal P (1 / 100)) = within_tolerance P m t"
  by (simp add: within_tolerance_def)

lemma tolerance_Number:
  "within_tolerance P (Number P m) (Number P t) = within_tolerance P m t"
  by (simp add: within_tolerance_def sub_def arith_Number)

section \<open>The fingerprint fallback\<close>

lemma scan_fingerprint_find:
  assumes "\<forall>f \<in> set fs. HasKey f ''Total_Miles'' \<and> HasKey f field"
  shows "scan_fingerprint P t field fs v0 =
     Inr (case find (\<lambda>f. within_tolerance P (GetVal f ''Total_Miles'') t) fs of
            None \<Rightarrow> v0 | Some f \<Rightarrow> GetVal f field)"
  using assms
proof (induction fs)
  case Nil
  show ?case by simp
next
  case (Cons f fs)
  from Cons.prems obtain m w where m: "f ''Total_Miles'' = Some m" and w: "f field = Some w"
    by (auto simp: HasKey_def)
  have rest: "\<forall>f \<in> set fs. HasKey f ''Total_Miles'' \<and> HasKey f field"
    using Cons.prems by simp
  show ?case
    using Cons.IH [OF rest] m w
    by (simp add: index_def GetVal_Some tolerance_test)
qed


text \<open>An instance: the second feature is within 0.01 and wins over the third, which
  matches exactly. The differences 2, 0.0078125 and 0 are doubles, so the exact
  subtraction of the stand-in host is the subtraction of doubles here.\<close>

lemma plain_host_tolerance:
  "within_tolerance plain_host (Num a) (Num b) = (\<bar>a - b\<bar> < 1 / 100)"
  by (simp add: within_tolerance_def lt_def Abs_def sub_def arith_def Number_def numeric_def
        num_less_def plain_host_def exact_def)


section \<open>The frame of the scripts\<close>

lemma fullLayerID_eq: "fullLayerID = ''dataSource_56-19abd51320a-layer-1-19abd51336a-layer-3''"
  by (simp add: fullLayerID_def deriveFullLayerID_def selectionID_def)

lemma ids_differ: "fullLayerID \<noteq> selectionID"
  by (simp add: fullLayerID_eq selectionID_def)

lemma frame_selected:
  assumes "ds selectionID = Some sel" and "ds fullLayerID = Some full"
    and "selectedFeatures sel = f # rest"
  shows "script_frame sz err A B ds =
     (case A (f # rest) (layer full) of Inl e \<Rightarrow> Inl e | Inr t \<Rightarrow> Inr (styled sz t))"
  using assms by (simp add: script_frame_def lookup_def HasKey_def Count_def)

lemma frame_none_selected:
  assumes "ds selectionID = Some sel" and "ds fullLayerID = Some full"
    and "selectedFeatures sel = []"
  shows "script_frame sz err A B ds =
     (case B (layer full) of Inl e \<Rightarrow> Inl e | Inr t \<Rightarrow> Inr (styled sz t))"
  using assms by (simp add: script_frame_def lookup_def HasKey_def Count_def)

lemma frame_absent:
  assumes "ds selectionID = Some sel" and "ds fullLayerID = None"
  shows "script_frame sz err A B ds = Inr (styled sz err)"
  using assms by (simp add: script_frame_def lookup_def HasKey_def)

lemma frame_style:
  assumes "script_frame sz err A B ds = Inr out"
  shows "out_text out = out_text (styled sz [])"
  using assms
  by (auto simp: script_frame_def styled_def split: sum.splits if_splits)

lemma out_value_styled: "out_value (styled sz t) = t"
  by (simp add: styled_def)

lemma example_sources_selection:
  "example_sources selected allFeats selectionID = Some \<lparr>selectedFeatures = selected, layer = []\<rparr>"
  using ids_differ by (simp add: example_sources_def)

lemma example_sources_full:
  "example_sources selected allFeats fullLayerID = Some \<lparr>selectedFeatures = [], layer = allFeats\<rparr>"
  by (simp add: example_sources_def)

section \<open>Direct values\<close>

lemma resolve_field_direct:
  "feat field = Some v \<Longrightarrow> \<not> IsEmpty v \<Longrightarrow> resolve_field P feat allFeats field = Inr v"
  by (simp add: resolve_field_def index_def)

lemma resolve_field_find:
  assumes "feat field = Some v0" and "feat ''Total_Miles'' = Some t"
    and "\<forall>g \<in> set allFeats. HasKey g ''Total_Miles'' \<and> HasKey g field"
  shows "resolve_field P feat allFeats field =
     Inr (if \<not> IsEmpty v0 then v0
          else if IsEmpty t then v0
          else (case find (\<lambda>g. within_tolerance P (GetVal g ''Total_Miles'') t) allFeats of
                  None \<Rightarrow> v0 | Some g \<Rightarrow> GetVal g field))"
  using assms(1,2) scan_fingerprint_find [OF assms(3)]
  by (simp add: resolve_field_def index_def)

lemma resolve_4d_direct:
  "\<not> IsEmpty (GetVal feat ''four_D_plus_miles'') \<Longrightarrow>
     resolve_4d P feat allFeats = GetVal feat ''four_D_plus_miles''"
  by (simp add: resolve_4d_def Let_def)

lemma miles_test:
  "(\<not> IsEmpty (GetVal f ''Total_Miles'')
    \<and> lt P (Abs P (sub P (Number P (GetVal f ''Total_Miles'')) (Number P t)))
         (host_literal P (1 / 100)))
   = miles_match P t f"
  by (simp add: miles_match_def tolerance_test tolerance_Number)

lemma truck_scan_find:
  "truck_scan P t fs st =
     (case find (miles_match P t) fs of
        None \<Rightarrow> st
      | Some f \<Rightarrow> (GetVal f ''Truck_AADT'', GetVal f ''AADT'', GetVal f ''Tons''))"
  by (induction fs) (simp_all add: Let_def miles_test)

lemma truck_caseA_values_find:
  "truck_caseA_values P feat allFeats =
     (let own = (GetVal feat ''Truck_AADT'', GetVal feat ''AADT'', GetVal feat ''Tons'');
          st = (if (IsEmpty (GetVal feat ''Truck_AADT'') \<or> IsEmpty (GetVal feat ''Tons''))
                   \<and> \<not> IsEmpty (GetVal feat ''Total_Miles'')
                then (case find (miles_match P (GetVal feat ''Total_Miles'')) allFeats of
                        None \<Rightarrow> own
                      | Some f \<Rightarrow> (GetVal f ''Truck_AADT'', GetVal f ''AADT'', GetVal f ''Tons''))
                else own)
      in (st, \<not> IsEmpty (fst st)))"
  by (simp add: truck_caseA_values_def Let_def truck_scan_find)

lemma truck_direct:
  "\<not> IsEmpty (GetVal feat ''Truck_AADT'') \<Longrightarrow> \<not> IsEmpty (GetVal feat ''Tons'') \<Longrightarrow>
     truck_caseA_values P feat allFeats =
       ((GetVal feat ''Truck_AADT'', GetVal feat ''AADT'', GetVal feat ''Tons''), True)"
  by (simp add: truck_caseA_values_def Let_def)

text \<open>
  Claim C2, as amended. A target field that is present and not empty is used as it is,
  whatever the full layer holds, in the single-field scripts (\<open>resolve_field\<close>) and in
  the 4D+ script. The truck script keeps the selected feature's \<open>Truck_AADT\<close>,
  \<open>AADT\<close> and \<open>Tons\<close> when both \<open>Truck_AADT\<close> and \<open>Tons\<close> are not empty. When one
  of the two is empty and \<open>Total_Miles\<close> is not, the three values are those of the first
  feature of the full layer whose \<open>Total_Miles\<close> is not empty and within 0.01 of the
  selected one; they are the selected feature's own when there is no such feature, or
  when \<open>Total_Miles\<close> is empty.
\<close>

theorem direct_value_kept:
  "(feat field = Some v \<and> \<not> IsEmpty v \<longrightarrow> resolve_field P feat allFeats field = Inr v) \<and>
   (\<not> IsEmpty (GetVal feat ''four_D_plus_miles'') \<longrightarrow>
      resolve_4d P feat allFeats = GetVal feat ''four_D_plus_miles'') \<and>
   (\<not> IsEmpty (GetVal feat ''Truck_AADT'') \<and> \<not> IsEmpty (GetVal feat ''Tons'') \<longrightarrow>
      truck_caseA_values P feat allFeats =
        ((GetVal feat ''Truck_AADT'', GetVal feat ''AADT'', GetVal feat ''Tons''), True)) \<and>
   truck_caseA_values P feat allFeats =
     (let own = (GetVal feat ''Truck_AADT'', GetVal feat ''AADT'', GetVal feat ''Tons'');
          st = (if (IsEmpty (GetVal feat ''Truck_AADT'') \<or> IsEmpty (GetVal feat ''Tons''))
                   \<and> \<not> IsEmpty (GetVal feat ''Total_Miles'')
                then (case find (miles_match P (GetVal feat ''Total_Miles'')) allFeats of
                        None \<Rightarrow> own
                      | Some f \<Rightarrow> (GetVal f ''Truck_AADT'', GetVal f ''AADT'', GetVal f ''Tons''))
                else own)
      in (st, \<not> IsEmpty (fst st)))"
  using resolve_field_direct [of feat field v P allFeats] resolve_4d_direct [of feat P allFeats]
    truck_direct [of feat P allFeats] truck_caseA_values_find [of P feat allFeats]
  by blast

theorem direct_value_kept_witness:
  "resolve_field plain_host
      [''four_D_plus_miles'' \<mapsto> Num 3, ''Truck_AADT'' \<mapsto> Num 100, ''AADT'' \<mapsto> Num 1000,
       ''Tons'' \<mapsto> Num 7, ''Total_Miles'' \<mapsto> Num 5]
      [[''four_D_plus_miles'' \<mapsto> Num 4, ''Truck_AADT'' \<mapsto> Num 200, ''AADT'' \<mapsto> Num 2000,
        ''Tons'' \<mapsto> Num 50, ''Total_Miles'' \<mapsto> Num 5]] ''AADT'' = Inr (Num 1000) \<and>
   resolve_4d plain_host
      [''four_D_plus_miles'' \<mapsto> Num 3, ''Truck_AADT'' \<mapsto> Num 100, ''AADT'' \<mapsto> Num 1000,
       ''Tons'' \<mapsto> Num 7, ''Total_Miles'' \<mapsto> Num 5]
      [[''four_D_plus_miles'' \<mapsto> Num 4, ''Truck_AADT'' \<mapsto> Num 200, ''AADT'' \<mapsto> Num 2000,
        ''Tons'' \<mapsto> Num 50, ''Total_Miles'' \<mapsto> Num 5]] = Num 3 \<and>
   truck_caseA_values plain_host
      [''four_D_plus_miles'' \<mapsto> Num 3, ''Truck_AADT'' \<mapsto> Num 100, ''AADT'' \<mapsto> Num 1000,
       ''Tons'' \<mapsto> Num 7, ''Total_Miles'' \<mapsto> Num 5]
      [[''four_D_plus_miles'' \<mapsto> Num 4, ''Truck_AADT'' \<mapsto> Num 200, ''AADT'' \<mapsto> Num 2000,
        ''Tons'' \<mapsto> Num 50, ''Total_Miles'' \<mapsto> Num 5]] = ((Num 100, Num 1000, Num 7), True)"
  using direct_value_kept
    [of "[''four_D_plus_miles'' \<mapsto> Num 3, ''Truck_AADT'' \<mapsto> Num 100, ''AADT'' \<mapsto> Num 1000,
          ''Tons'' \<mapsto> Num 7, ''Total_Miles'' \<mapsto> Num 5]" "''AADT''" "Num 1000" plain_host
        "[[''four_D_plus_miles'' \<mapsto> Num 4, ''Truck_AADT'' \<mapsto> Num 200, ''AADT'' \<mapsto> Num 2000,
           ''Tons'' \<mapsto> Num 50, ''Total_Miles'' \<mapsto> Num 5]]"]
  by (simp add: IsEmpty_def GetVal_def HasKey_def)

text \<open>
  Claim C2 as stated fails in the truck script: with \<open>Tons\<close> empty the fallback runs
  and replaces the \<open>AADT\<close> of the selected feature, 1000, present and not empty, by
  that of the matching feature of the full layer, 2000.
\<close>

theorem truck_fallback_overwrites_present_value:
  "GetVal [''Truck_AADT'' \<mapsto> Num 100, ''AADT'' \<mapsto> Num 1000, ''Tons'' \<mapsto> Null,
           ''Total_Miles'' \<mapsto> Num 5] ''AADT'' = Num 1000 \<and>
   truck_caseA_values plain_host
      [''Truck_AADT'' \<mapsto> Num 100, ''AADT'' \<mapsto> Num 1000, ''Tons'' \<mapsto> Null,
       ''Total_Miles'' \<mapsto> Num 5] [] = ((Num 100, Num 1000, Null), True) \<and>
   truck_caseA_values plain_host
      [''Truck_AADT'' \<mapsto> Num 100, ''AADT'' \<mapsto> Num 1000, ''Tons'' \<mapsto> Null,
       ''Total_Miles'' \<mapsto> Num 5]
      [[''Truck_AADT'' \<mapsto> Num 200, ''AADT'' \<mapsto> Num 2000, ''Tons'' \<mapsto> Num 50,
        ''Total_Miles'' \<mapsto> Num 5]] = ((Num 200, Num 2000, Num 50), True)"
  by (simp add: truck_caseA_values_find miles_match_def plain_host_tolerance GetVal_def
        HasKey_def IsEmpty_def Let_def)

section \<open>Something is selected\<close>

lemma shown_selected:
  assumes "ds selectionID = Some sel" and "ds fullLayerID = Some full"
    and "selectedFeatures sel = f # rest"
  shows "map_sum id out_value (script_frame sz err A B ds) = A (f # rest) (layer full)"
  by (simp add: frame_selected [OF assms] out_value_styled split: sum.splits)

lemma hwy_scan_find:
  "hwy_scan P targetKey fs st =
     (case find (hwy_match P targetKey) fs of
        None \<Rightarrow> st
      | Some g \<Rightarrow> (GetVal g ''four_D_plus_miles'', True))"
  by (induction fs) (simp_all add: Let_def hwy_match_def)

lemma miles_scan_find:
  "miles_scan P t fs st =
     (case find (miles_match P t) fs of
        None \<Rightarrow> st
      | Some g \<Rightarrow> (GetVal g ''four_D_plus_miles'', True))"
  by (induction fs) (simp_all add: Let_def miles_test)

lemma resolve_4d_find:
  "resolve_4d P s allFeats =
     (if \<not> IsEmpty (GetVal s ''four_D_plus_miles'') then GetVal s ''four_D_plus_miles''
      else (case (if \<not> IsEmpty (GetVal s ''HWY'')
                  then find (hwy_match P (Lower P (Trim P (toText P (GetVal s ''HWY''))))) allFeats
                  else None) of
              Some g \<Rightarrow> GetVal g ''four_D_plus_miles''
            | None \<Rightarrow>
                (if \<not> IsEmpty (GetVal s ''Total_Miles'')
                 then (case find (miles_match P (GetVal s ''Total_Miles'')) allFeats of
                         Some g \<Rightarrow> GetVal g ''four_D_plus_miles''
                       | None \<Rightarrow> GetVal s ''four_D_plus_miles'')
                 else GetVal s ''four_D_plus_miles'')))"
  by (simp add: resolve_4d_def Let_def hwy_scan_find miles_scan_find split: option.splits)

lemma sum_selected_4d_foldl:
  "sum_selected_4d P selected allFeats acc =
     foldl (add P) acc
       (map (Number P) (filter (\<lambda>v. \<not> IsEmpty v) (map (\<lambda>s. resolve_4d P s allFeats) selected)))"
  by (induction selected arbitrary: acc) (simp_all add: Let_def)

text \<open>
  Claim C3, as amended. With one or more selected features, every script but the 4D+
  script reads the first selected feature only: the text shown is given by that feature
  and the full layer, and the other selected features do not occur in it. The fatal-crash,
  projects, cost and AADT scripts resolve the target field on it (directly, else by the
  fingerprint fallback: its own value when not empty, else that of the first feature of
  the full layer within the fingerprint tolerance, when the features of the full layer
  carry the fields) and show a fixed zero text when the resolved value is empty; the
  total-miles and corridor-title scripts read the field without a fallback; the truck
  script resolves its three values on it (its own, or those of the first feature of the
  full layer within the fingerprint tolerance) and shows them as truck AADT, truck share
  and tons, or \<open>0 / 0% / 0\<close> when the resolved \<open>Truck_AADT\<close> is empty. The 4D+
  script resolves the field for every selected feature (its own value when not empty, else
  that of the first feature of the full layer with the same highway name, else that of
  the first one within the fingerprint tolerance) and formats the sum, added up from 0 in
  the order of the selection, of the resolved values that are not empty.
\<close>

theorem first_selected_feature_decides:
  assumes "ds selectionID = Some sel" and "ds fullLayerID = Some full"
    and "selectedFeatures sel = f # rest"
  shows
   "map_sum id out_value (fatal_crashes P ds) =
      (case resolve_field P f (layer full) ''Number_Of_Fatal_Crashes'' of
         Inl e \<Rightarrow> Inl e
       | Inr v \<Rightarrow> Inr (if IsEmpty v then ''0'' else Text_fmt P v ''#,###'')) \<and>
    map_sum id out_value (projects P ds) =
      (case resolve_field P f (layer full) ''Projects_Construction'' of
         Inl e \<Rightarrow> Inl e
       | Inr v \<Rightarrow> Inr (if IsEmpty v then ''0'' else Text_fmt P v ''#,###'')) \<and>
    map_sum id out_value (cost P ds) =
      (case resolve_field P f (layer full) ''Project_Cost_Construction'' of
         Inl e \<Rightarrow> Inl e
       | Inr v \<Rightarrow> Inr (if IsEmpty v then ''$0'' else formatCompact P v)) \<and>
    map_sum id out_value (aadt P ds) =
      (case resolve_field P f (layer full) ''AADT'' of
         Inl e \<Rightarrow> Inl e
       | Inr v \<Rightarrow> Inr (if IsEmpty v then ''0''
                      else if gt P v (Num 0) then Text_fmt P v ''#,###''
                      else ''0'')) \<and>
    map_sum id out_value (total_miles P ds) =
      (case index f ''Total_Miles'' of
         Inl e \<Rightarrow> Inl e
       | Inr v \<Rightarrow> Inr (Text_fmt P v ''#,###.0'' @ '' mi'')) \<and>
    map_sum id out_value (corridor_title P ds) =
      (case index f ''Corridor'' of
         Inl e \<Rightarrow> Inl e
       | Inr v \<Rightarrow> Inr (toText P v @ '' Corridor Profile'')) \<and>
    map_sum id out_value (truck_stats P ds) =
      Inr (case truck_caseA_values P f (layer full) of
             ((valTruckAADT, valTotalAADT, valTons), hasData) \<Rightarrow>
               if hasData
               then Text_fmt P (Round P (Number P valTruckAADT) 0) ''#,###'' @ '' / ''
                    @ (if gt P (Number P valTotalAADT) (Num 0)
                       then Text_fmt P (divide_val P (Number P valTruckAADT) (Number P valTotalAADT))
                              ''#%''
                       else ''0%'')
                    @ '' / '' @ FormatCompact P (Number P valTons) @ '' Tons''
               else ''0 / 0% / 0'') \<and>
    truck_caseA_values P f (layer full) =
      (let own = (GetVal f ''Truck_AADT'', GetVal f ''AADT'', GetVal f ''Tons'');
           st = (if (IsEmpty (GetVal f ''Truck_AADT'') \<or> IsEmpty (GetVal f ''Tons''))
                    \<and> \<not> IsEmpty (GetVal f ''Total_Miles'')
                 then (case find (miles_match P (GetVal f ''Total_Miles'')) (layer full) of
                         None \<Rightarrow> own
                       | Some g \<Rightarrow> (GetVal g ''Truck_AADT'', GetVal g ''AADT'', GetVal g ''Tons''))
                 else own)
       in (st, \<not> IsEmpty (fst st))) \<and>
    map_sum id out_value (four_d_miles P ds) =
      Inr (Text_fmt P
             (sum_of P (map (Number P) (filter (\<lambda>v. \<not> IsEmpty v)
                (map (\<lambda>s. resolve_4d P s (layer full)) (f # rest)))))
             ''#,###.0'' @ '' mi'') \<and>
    resolve_4d P s (layer full) =
      (if \<not> IsEmpty (GetVal s ''four_D_plus_miles'') then GetVal s ''four_D_plus_miles''
       else (case (if \<not> IsEmpty (GetVal s ''HWY'')
                   then find (hwy_match P (Lower P (Trim P (toText P (GetVal s ''HWY'')))))
                          (layer full)
                   else None) of
               Some g \<Rightarrow> GetVal g ''four_D_plus_miles''
             | None \<Rightarrow>
                 (if \<not> IsEmpty (GetVal s ''Total_Miles'')
                  then (case find (miles_match P (GetVal s ''Total_Miles'')) (layer full) of
                          Some g \<Rightarrow> GetVal g ''four_D_plus_miles''
                        | None \<Rightarrow> GetVal s ''four_D_plus_miles'')
                  else GetVal s ''four_D_plus_miles''))) \<and>
    (f field = Some v0 \<and> f ''Total_Miles'' = Some t
       \<and> (\<forall>g \<in> set (layer full). HasKey g ''Total_Miles'' \<and> HasKey g field) \<longrightarrow>
     resolve_field P f (layer full) field =
       Inr (if \<not> IsEmpty v0 then v0
            else if IsEmpty t then v0
            else (case find (\<lambda>g. within_tolerance P (GetVal g ''Total_Miles'') t) (layer full) of
                    None \<Rightarrow> v0 | Some g \<Rightarrow> GetVal g field)))"
proof -
  note sh = shown_selected [OF assms]
  have 1: "map_sum id out_value (fatal_crashes P ds) =
      (case resolve_field P f (layer full) ''Number_Of_Fatal_Crashes'' of
         Inl e \<Rightarrow> Inl e
       | Inr v \<Rightarrow> Inr (if IsEmpty v then ''0'' else Text_fmt P v ''#,###''))"
    by (simp add: fatal_crashes_def sh fatal_crashes_caseA_def First_def split: sum.splits)
  have 2: "map_sum id out_value (projects P ds) =
      (case resolve_field P f (layer full) ''Projects_Construction'' of
         Inl e \<Rightarrow> Inl e
       | Inr v \<Rightarrow> Inr (if IsEmpty v then ''0'' else Text_fmt P v ''#,###''))"
    by (simp add: projects_def sh projects_caseA_def First_def split: sum.splits)
  have 3: "map_sum id out_value (cost P ds) =
      (case resolve_field P f (layer full) ''Project_Cost_Construction'' of
         Inl e \<Rightarrow> Inl e
       | Inr v \<Rightarrow> Inr (if IsEmpty v then ''$0'' else formatCompact P v))"
    by (simp add: cost_def sh cost_caseA_def First_def split: sum.splits)
  have 4: "map_sum id out_value (aadt P ds) =
      (case resolve_field P f (layer full) ''AADT'' of
         Inl e \<Rightarrow> Inl e
       | Inr v \<Rightarrow> Inr (if IsEmpty v then ''0''
                      else if gt P v (Num 0) then Text_fmt P v ''#,###''
                      else ''0''))"
    by (simp add: aadt_def sh aadt_caseA_def First_def split: sum.splits)
  have 5: "map_sum id out_value (total_miles P ds) =
      (case index f ''Total_Miles'' of
         Inl e \<Rightarrow> Inl e
       | Inr v \<Rightarrow> Inr (Text_fmt P v ''#,###.0'' @ '' mi''))"
    by (simp add: total_miles_def sh total_miles_caseA_def First_def split: sum.splits)
  have 6: "map_sum id out_value (corridor_title P ds) =
      (case index f ''Corridor'' of
         Inl e \<Rightarrow> Inl e
       | Inr v \<Rightarrow> Inr (toText P v @ '' Corridor Profile''))"
    by (simp add: corridor_title_def sh corridor_title_caseA_def First_def split: sum.splits)
  have 7: "map_sum id out_value (truck_stats P ds) =
      Inr (case truck_caseA_values P f (layer full) of
             ((valTruckAADT, valTotalAADT, valTons), hasData) \<Rightarrow>
               if hasData
               then Text_fmt P (Round P (Number P valTruckAADT) 0) ''#,###'' @ '' / ''
                    @ (if gt P (Number P valTotalAADT) (Num 0)
                       then Text_fmt P (divide_val P (Number P valTruckAADT) (Number P valTotalAADT))
                              ''#%''
                       else ''0%'')
                    @ '' / '' @ FormatCompact P (Number P valTons) @ '' Tons''
               else ''0 / 0% / 0'')"
    by (simp add: truck_stats_def sh truck_caseA_def First_def truck_format_def Let_def
          split: prod.splits)
  have 8: "map_sum id out_value (four_d_miles P ds) =
      Inr (Text_fmt P
             (sum_of P (map (Number P) (filter (\<lambda>v. \<not> IsEmpty v)
                (map (\<lambda>s. resolve_4d P s (layer full)) (f # rest)))))
             ''#,###.0'' @ '' mi'')"
    by (simp only: four_d_miles_def sh four_d_caseA_def sum_selected_4d_foldl sum_of_def)
  from 1 2 3 4 5 6 7 8 resolve_4d_find [of P s "layer full"]
    truck_caseA_values_find [of P f "layer full"]
    resolve_field_find [of f field v0 t "layer full" P]
  show ?thesis by blast
qed

lemma example_first_fields:
  "example_first ''Number_Of_Fatal_Crashes'' = Some Null"
  "example_first ''Projects_Construction'' = Some Null"
  "example_first ''Project_Cost_Construction'' = Some Null"
  "example_first ''AADT'' = Some (Num 0)"
  "example_first ''Total_Miles'' = Some (Num 5)"
  "example_first ''Corridor'' = Some (Str ''I-35W'')"
  "example_first ''four_D_plus_miles'' = Some (Num 1)"
  "example_first ''Truck_AADT'' = Some Null"
  "example_first ''Tons'' = None"
  by (simp_all add: example_first_def)

lemma example_second_fields:
  "example_second ''four_D_plus_miles'' = Some (Num 2)"
  by (simp_all add: example_second_def)

lemma plain_host_add: "add plain_host (Num a) (Num b) = Num (a + b)"
  by (simp add: add_def arith_def Number_def numeric_def plain_host_def exact_def)

lemma plain_host_mul: "mul plain_host (Num a) (Num b) = Num (a * b)"
  by (simp add: mul_def arith_def Number_def numeric_def plain_host_def exact_def)

lemma plain_host_divide:
  "b \<noteq> 0 \<Longrightarrow> divide_val plain_host (Num a) (Num b) = Num (a / b)"
  by (simp add: divide_val_def arith_def Number_def numeric_def plain_host_def exact_div_def)

lemma plain_host_shows:
  "Text_fmt plain_host v p = ''#''" "Text_plain plain_host v = ''#''" "Round plain_host v n = v"
  by (simp_all add: plain_host_def)

lemma compare_Num:
  "gt P (Num a) (Num b) = (b < a)" "lt P (Num a) (Num b) = (a < b)"
  "ge P (Num a) (Num b) = (b \<le> a)"
  by (simp_all add: gt_def lt_def ge_def num_less_def num_le_def Number_Num)

theorem first_selected_feature_decides_witness:
  "map_sum id out_value (fatal_crashes plain_host (example_sources [example_first, example_second] []))
     = Inr ''0'' \<and>
   map_sum id out_value (projects plain_host (example_sources [example_first, example_second] []))
     = Inr ''0'' \<and>
   map_sum id out_value (cost plain_host (example_sources [example_first, example_second] []))
     = Inr ''$0'' \<and>
   map_sum id out_value (aadt plain_host (example_sources [example_first, example_second] []))
     = Inr ''0'' \<and>
   map_sum id out_value (total_miles plain_host (example_sources [example_first, example_second] []))
     = Inr ''# mi'' \<and>
   map_sum id out_value (corridor_title plain_host (example_sources [example_first, example_second] []))
     = Inr ''I-35W Corridor Profile'' \<and>
   map_sum id out_value (truck_stats plain_host (example_sources [example_first, example_second] []))
     = Inr ''0 / 0% / 0'' \<and>
   map_sum id out_value (four_d_miles plain_host (example_sources [example_first, example_second] []))
     = Inr ''# mi'' \<and>
   resolve_field plain_host example_first [] ''AADT'' = Inr (Num 0)"
  using first_selected_feature_decides
    [where ds = "example_sources [example_first, example_second] []" and f = example_first
       and rest = "[example_second]" and P = plain_host and field = "''AADT''"
       and ?v0.0 = "Num 0" and t = "Num 5",
     OF example_sources_selection example_sources_full]
  by (simp add: resolve_field_def index_def example_first_fields IsEmpty_def compare_Num
        plain_host_def toText_def truck_format_def truck_caseA_values_def GetVal_def HasKey_def)

text \<open>
  Claim C3 as stated fails in the 4D+ script: the number that it formats is the sum over
  both selected features, 3, and not the value 1 of the first one.
\<close>

theorem four_d_sums_all_selected:
  "sum_selected_4d plain_host [example_first, example_second] [] (Num 0) = Num 3 \<and>
   sum_selected_4d plain_host [example_first] [] (Num 0) = Num 1"
  by (simp add: resolve_4d_def GetVal_def HasKey_def example_first_fields example_second_fields
        IsEmpty_def plain_host_add Number_Num)

lemma present_positive_Num: "present_positive P (Num r) = (0 < r)"
  by (simp add: present_positive_def IsEmpty_def compare_Num)

text \<open>
  Claim C10. In the AADT script with a selected feature, the resolved value is formatted
  and shown only when it is present and strictly greater than 0; otherwise the text
  shown is \<open>0\<close>. For a number that is zero or negative the text is \<open>0\<close>, then.
\<close>

theorem aadt_positive_only:
  assumes "ds selectionID = Some sel" and "ds fullLayerID = Some full"
    and "selectedFeatures sel = f # rest"
    and "resolve_field P f (layer full) ''AADT'' = Inr v"
  shows "map_sum id out_value (aadt P ds) =
      Inr (if present_positive P v then Text_fmt P v ''#,###'' else ''0'') \<and>
    present_positive P (Num r) = (0 < r)"
proof -
  have "map_sum id out_value (aadt P ds) =
      Inr (if present_positive P v then Text_fmt P v ''#,###'' else ''0'')"
    using assms(4)
    by (simp add: aadt_def shown_selected [OF assms(1-3)] aadt_caseA_def First_def
          present_positive_def)
  then show ?thesis by (simp add: present_positive_Num)
qed

lemma example_second_AADT: "example_second ''AADT'' = Some (Num 700)"
  by (simp add: example_second_def)

theorem aadt_positive_only_witness:
  "map_sum id out_value (aadt plain_host (example_sources [example_first, example_second] []))
     = Inr ''0'' \<and>
   map_sum id out_value (aadt plain_host (example_sources [example_second] [])) = Inr ''#''"
  using aadt_positive_only
    [where ds = "example_sources [example_first, example_second] []" and f = example_first
       and rest = "[example_second]" and P = plain_host and v = "Num 0",
     OF example_sources_selection example_sources_full]
    aadt_positive_only
    [where ds = "example_sources [example_second] []" and f = example_second
       and rest = "[]" and P = plain_host and v = "Num 700",
     OF example_sources_selection example_sources_full]
  by (simp add: resolve_field_def index_def example_first_fields example_second_AADT IsEmpty_def
        present_positive_Num plain_host_def)

section \<open>The identifier of the full layer\<close>

lemma Replace_skip:
  "\<not> prefix pat (c # cs) \<Longrightarrow> Replace (c # cs) pat rep = c # Replace cs pat rep"
  by simp

lemma prefix_selection_append:
  assumes "prefix ''-selection'' (xs @ ''-selection'')"
  shows "xs = [] \<or> prefix ''-selection'' xs"
proof (cases "prefix ''-selection'' xs")
  case True
  then show ?thesis by simp
next
  case False
  with assms obtain us where us: "''-selection'' = xs @ us" and p: "prefix us ''-selection''"
    by (auto simp: prefix_append)
  show ?thesis
  proof (cases xs)
    case Nil
    then show ?thesis by simp
  next
    case (Cons c cs)
    with us have tl: "''selection'' = cs @ us" by simp
    have "us \<noteq> []" using us False by auto
    with p have "CHR ''-'' \<in> set us" by (cases us) (auto simp: prefix_Cons)
    then have "CHR ''-'' \<in> set (cs @ us)" by simp
    with tl have "CHR ''-'' \<in> set ''selection''" by metis
    then show ?thesis by simp
  qed
qed

lemma Replace_trailing_selection:
  "\<not> sublist ''-selection'' s \<Longrightarrow> Replace (s @ ''-selection'') ''-selection'' [] = s"
proof (induction s)
  case Nil
  show ?case by simp
next
  case (Cons c cs)
  from Cons.prems have np: "\<not> prefix ''-selection'' (c # cs)" and ns: "\<not> sublist ''-selection'' cs"
    by (simp_all add: sublist_Cons_right)
  have "\<not> prefix ''-selection'' ((c # cs) @ ''-selection'')"
    using prefix_selection_append [of "c # cs"] np by blast
  from this [unfolded append_Cons]
  have "Replace (c # (cs @ ''-selection'')) ''-selection'' [] =
      c # Replace (cs @ ''-selection'') ''-selection'' []"
    by (rule Replace_skip)
  with Cons.IH [OF ns] show ?case by (simp only: append_Cons)
qed

lemma strip_trailing_append: "strip_trailing pat (s @ pat) = s"
  by (simp add: strip_trailing_def suffix_def)

text \<open>
  Claim C8. Every script holds the same selection identifier, a literal, and derives the
  identifier of the full layer from it: the result is the selection identifier with the
  trailing \<open>-selection\<close> stripped and every other character unchanged. The same holds
  for any identifier that ends in \<open>-selection\<close> and does not contain it elsewhere.
\<close>

theorem full_id_strips_trailing_suffix:
  "fullLayerID = strip_trailing ''-selection'' selectionID \<and>
   fullLayerID = ''dataSource_56-19abd51320a-layer-1-19abd51336a-layer-3'' \<and>
   selectionID = fullLayerID @ ''-selection'' \<and>
   (\<not> sublist ''-selection'' s \<longrightarrow>
      deriveFullLayerID (s @ ''-selection'') = strip_trailing ''-selection'' (s @ ''-selection'')
      \<and> deriveFullLayerID (s @ ''-selection'') = s)"
proof -
  have a: "fullLayerID = ''dataSource_56-19abd51320a-layer-1-19abd51336a-layer-3''"
    by (rule fullLayerID_eq)
  have b: "selectionID = fullLayerID @ ''-selection''"
    by (simp add: a selectionID_def)
  have c: "fullLayerID = strip_trailing ''-selection'' selectionID"
    using strip_trailing_append [of "''-selection''" fullLayerID] by (simp only: b [symmetric])
  show ?thesis
    using a b c by (simp add: deriveFullLayerID_def Replace_trailing_selection strip_trailing_append)
qed

theorem full_id_strips_trailing_suffix_witness:
  "deriveFullLayerID ''dataSource_7-layer-2-selection'' = ''dataSource_7-layer-2'' \<and>
   fullLayerID = strip_trailing ''-selection'' selectionID"
  using full_id_strips_trailing_suffix [of "''dataSource_7-layer-2''"]
  by (simp add: sublist_Cons_right strip_trailing_def suffix_def)

section \<open>The error text, the styling, and missing fields\<close>

text \<open>With the key of the full layer absent every script returns its fixed error text,
  whatever is selected.\<close>

lemma key_absent_gives_error_text:
  assumes "ds selectionID = Some sel" and "ds fullLayerID = None"
  shows "corridor_title P ds = Inr (styled 22 noAccess)"
    and "fatal_crashes P ds = Inr (styled 20 noAccess)"
    and "total_miles P ds = Inr (styled 20 noAccess)"
    and "four_d_miles P ds = Inr (styled 20 noAccess)"
    and "aadt P ds = Inr (styled 20 noAccess)"
    and "projects P ds = Inr (styled 20 noAccess)"
    and "cost P ds = Inr (styled 20 noAccess)"
    and "truck_stats P ds = Inr (styled 20 ''Error: Data Source Not Found'')"
  by (simp_all add: corridor_title_def fatal_crashes_def total_miles_def four_d_miles_def
        aadt_def projects_def cost_def truck_stats_def frame_absent [OF assms])

lemma script_is_frame:
  assumes "(sz, script) \<in> set all_scripts"
  shows "\<exists>err A B. script P = script_frame sz err (A :: feature list \<Rightarrow> feature list \<Rightarrow> string result) B"
  using assms
  unfolding all_scripts_def corridor_title_def fatal_crashes_def total_miles_def
    four_d_miles_def aadt_def projects_def cost_def truck_stats_def
  by auto

text \<open>
  Claim C9. Any two evaluations of one script that return a record return the same
  styling: bold, the colour \<open>rgb(0, 86, 169)\<close>, not italic, not underlined, not struck,
  and the size of the script. The data reach the display text only.
\<close>

theorem styling_is_constant:
  assumes "(sz, script) \<in> set all_scripts"
    and "script P ds = Inr out" and "script P' ds' = Inr out'"
  shows "out_text out = out_text out' \<and>
     out_text out = \<lparr>text_size = sz, bold = True, color = ''rgb(0, 86, 169)'',
                      italic = False, underline = False, strike = False\<rparr>"
proof -
  from script_is_frame [OF assms(1)] obtain err A B where
    "script P = script_frame sz err (A :: feature list \<Rightarrow> feature list \<Rightarrow> string result) B"
    by blast
  with assms(2) have 1: "out_text out = out_text (styled sz [])"
    using frame_style by metis
  from script_is_frame [OF assms(1)] obtain err' A' B' where
    "script P' = script_frame sz err' (A' :: feature list \<Rightarrow> feature list \<Rightarrow> string result) B'"
    by blast
  with assms(3) have 2: "out_text out' = out_text (styled sz [])"
    using frame_style by metis
  from 1 2 show ?thesis by (simp add: styled_def)
qed

lemma example_sources_only_selection:
  "[selectionID \<mapsto> \<lparr>selectedFeatures = [], layer = []\<rparr>] fullLayerID = None"
  using ids_differ by simp

theorem styling_is_constant_witness:
  "aadt plain_host (example_sources [example_second] [example_full]) = Inr (styled 20 ''#'') \<and>
   aadt plain_host [selectionID \<mapsto> \<lparr>selectedFeatures = [], layer = []\<rparr>]
     = Inr (styled 20 noAccess) \<and>
   out_text (styled 20 ''#'') = out_text (styled 20 noAccess)"
proof -
  have a: "aadt plain_host (example_sources [example_second] [example_full]) = Inr (styled 20 ''#'')"
    by (simp add: aadt_def frame_selected [OF example_sources_selection example_sources_full]
          aadt_caseA_def First_def resolve_field_def index_def example_second_AADT IsEmpty_def
          compare_Num plain_host_def)
  have b: "aadt plain_host [selectionID \<mapsto> \<lparr>selectedFeatures = [], layer = []\<rparr>]
     = Inr (styled 20 noAccess)"
  proof -
    have s: "[selectionID \<mapsto> \<lparr>selectedFeatures = [], layer = []\<rparr>] selectionID
       = Some \<lparr>selectedFeatures = [], layer = []\<rparr>"
      by simp
    show ?thesis
      by (rule key_absent_gives_error_text(5) [OF s example_sources_only_selection])
  qed
  have m: "(20, aadt) \<in> set all_scripts" by (simp add: all_scripts_def)
  from styling_is_constant [OF m a b] a b show ?thesis by simp
qed

text \<open>
  Claim C7 at a selected feature whose schema lacks \<open>AADT\<close>: the AADT script reads
  the field directly and the evaluation stops with an error, where the truck script, which
  reads through \<open>GetVal\<close>, falls back to the full layer and returns a display text.
\<close>

theorem missing_field_raises:
  "aadt plain_host (example_sources [[''Total_Miles'' \<mapsto> Num 5]] [example_full])
     = Inl (FieldNotFound ''AADT'') \<and>
   truck_stats plain_host (example_sources [[''Total_Miles'' \<mapsto> Num 5]] [example_full])
     = Inr (styled 20 ''# / # / # Tons'')"
proof -
  note fr = frame_selected [OF example_sources_selection example_sources_full]
  have 1: "aadt plain_host (example_sources [[''Total_Miles'' \<mapsto> Num 5]] [example_full])
     = Inl (FieldNotFound ''AADT'')"
    by (simp add: aadt_def fr aadt_caseA_def First_def resolve_field_def index_def)
  have v: "truck_caseA_values plain_host [''Total_Miles'' \<mapsto> Num 5] [example_full]
     = ((Num 90, Num 900, Num 12), True)"
    by (simp add: truck_caseA_values_find miles_match_def plain_host_tolerance GetVal_def
          HasKey_def IsEmpty_def Let_def example_full_def)
  have f: "truck_format plain_host ((Num 90, Num 900, Num 12), True) = ''# / # / # Tons''"
    by (simp add: truck_format_def FormatCompact_def Let_def compare_Num Abs_def
          Number_Num IsEmpty_def IsNan_def plain_host_def)
  have 2: "truck_stats plain_host (example_sources [[''Total_Miles'' \<mapsto> Num 5]] [example_full])
     = Inr (styled 20 ''# / # / # Tons'')"
    by (simp add: truck_stats_def fr truck_caseA_def First_def v f)
  from 1 2 show ?thesis by simp
qed

section \<open>The compact formats\<close>

lemma Abs_Num: "Number P n = Num r \<Longrightarrow> Abs P n = Num \<bar>r\<bar>"
  by (simp add: Abs_def)

lemma arith_of_Number: "Number P n = Num r \<Longrightarrow> arith host_op P n b = arith host_op P (Num r) b"
  by (simp add: arith_def Number_Num)

lemma formatCompact_empty: "IsEmpty n \<Longrightarrow> formatCompact P n = ''$0''"
  by (simp add: formatCompact_def)

lemma formatCompact_number:
  assumes "\<not> IsEmpty n" and "Number P n = Num r"
  shows "formatCompact P n =
      (if \<bar>r\<bar> < 1000 then ''$'' @ toText P (Round P n 1)
       else if \<bar>r\<bar> < 1000000
         then ''$'' @ toText P (Round P (divide_val P (Num r) (Num 1000)) 1) @ ''K''
       else if \<bar>r\<bar> < 1000000000
         then ''$'' @ toText P (Round P (divide_val P (Num r) (Num 1000000)) 1) @ ''M''
       else ''$'' @ toText P (Round P (divide_val P (Num r) (Num 1000000000)) 1) @ ''B'')"
  using assms
  by (simp add: formatCompact_def Let_def Abs_Num compare_Num divide_val_def
        arith_of_Number [OF assms(2)])

lemma FormatCompact_empty: "IsEmpty n \<or> IsNan n \<Longrightarrow> FormatCompact P n = ''0''"
  by (simp add: FormatCompact_def)

lemma FormatCompact_number:
  assumes "\<not> IsEmpty n" and "Number P n = Num r"
  shows "FormatCompact P n =
      (if \<bar>r\<bar> < 1000
         then Text_fmt P (Round P (mul P (Num \<bar>r\<bar>) (Num (if r < 0 then - 1 else 1))) 1)
                ''#.################''
       else if \<bar>r\<bar> < 1000000
         then Text_fmt P (Round P (mul P (divide_val P (Num \<bar>r\<bar>) (Num 1000))
                                         (Num (if r < 0 then - 1 else 1))) 1)
                ''#.################'' @ ''K''
       else if \<bar>r\<bar> < 1000000000
         then Text_fmt P (Round P (mul P (divide_val P (Num \<bar>r\<bar>) (Num 1000000))
                                         (Num (if r < 0 then - 1 else 1))) 1)
                ''#.################'' @ ''M''
       else Text_fmt P (Round P (mul P (divide_val P (Num \<bar>r\<bar>) (Num 1000000000))
                                       (Num (if r < 0 then - 1 else 1))) 1)
              ''#.################'' @ ''B'')"
proof -
  from assms(2) have nn: "\<not> IsNan n"
    by (auto simp: IsNan_def Number_NaN)
  show ?thesis
    using assms nn
    by (simp add: FormatCompact_def Let_def Number_Num Abs_def compare_Num not_le)
qed

text \<open>
  Claim C6, as amended. The formatter of the cost script returns \<open>$0\<close> for an empty
  input; for a number it returns \<open>$\<close>, then the text of the value rounded to one
  decimal place, the value itself or its quotient by 1000, 10^6 or 10^9 according to the
  magnitude, then the suffix (none, K, M, B). The formatter of the truck script returns
  \<open>0\<close> for an empty or NaN input; for a number it returns the magnitude, scaled in
  the same way and multiplied by the sign, rounded to one decimal place and formatted by
  the pattern \<open>#.################\<close>, then the suffix, with no \<open>$\<close>. Quotient,
  product, rounding and the text of a number are the host's.
\<close>

theorem compact_formats:
  "(IsEmpty n \<longrightarrow> formatCompact P n = ''$0'') \<and>
   (\<not> IsEmpty n \<and> Number P n = Num r \<longrightarrow> formatCompact P n =
      (if \<bar>r\<bar> < 1000 then ''$'' @ toText P (Round P n 1)
       else if \<bar>r\<bar> < 1000000
         then ''$'' @ toText P (Round P (divide_val P (Num r) (Num 1000)) 1) @ ''K''
       else if \<bar>r\<bar> < 1000000000
         then ''$'' @ toText P (Round P (divide_val P (Num r) (Num 1000000)) 1) @ ''M''
       else ''$'' @ toText P (Round P (divide_val P (Num r) (Num 1000000000)) 1) @ ''B'')) \<and>
   (IsEmpty n \<or> IsNan n \<longrightarrow> FormatCompact P n = ''0'') \<and>
   (\<not> IsEmpty n \<and> Number P n = Num r \<longrightarrow> FormatCompact P n =
      (if \<bar>r\<bar> < 1000
         then Text_fmt P (Round P (mul P (Num \<bar>r\<bar>) (Num (if r < 0 then - 1 else 1))) 1)
                ''#.################''
       else if \<bar>r\<bar> < 1000000
         then Text_fmt P (Round P (mul P (divide_val P (Num \<bar>r\<bar>) (Num 1000))
                                         (Num (if r < 0 then - 1 else 1))) 1)
                ''#.################'' @ ''K''
       else if \<bar>r\<bar> < 1000000000
         then Text_fmt P (Round P (mul P (divide_val P (Num \<bar>r\<bar>) (Num 1000000))
                                         (Num (if r < 0 then - 1 else 1))) 1)
                ''#.################'' @ ''M''
       else Text_fmt P (Round P (mul P (divide_val P (Num \<bar>r\<bar>) (Num 1000000000))
                                       (Num (if r < 0 then - 1 else 1))) 1)
              ''#.################'' @ ''B''))"
  using formatCompact_empty [of n P] formatCompact_number [of n P r]
    FormatCompact_empty [of n P] FormatCompact_number [of n P r]
  by blast

theorem compact_formats_witness:
  "formatCompact plain_host Null = ''$0'' \<and>
   formatCompact plain_host (Num 1500) = ''$#K'' \<and>
   FormatCompact plain_host NaN = ''0'' \<and>
   FormatCompact plain_host (Num (- 2500000)) = ''#M''"
  using compact_formats [of Null plain_host 0] compact_formats [of "Num 1500" plain_host 1500]
    compact_formats [of NaN plain_host 0] compact_formats [of "Num (- 2500000)" plain_host "- 2500000"]
  by (simp add: IsEmpty_def IsNan_def Number_def plain_host_shows plain_host_divide
        plain_host_mul toText_def)

text \<open>
  Claim C6 as stated fails for the formatter of the truck script: for an empty or NaN
  input it returns \<open>0\<close>, not \<open>$0\<close>.
\<close>

theorem truck_format_has_no_dollar_zero:
  "FormatCompact plain_host Null = ''0'' \<and> FormatCompact plain_host NaN = ''0'' \<and>
   FormatCompact plain_host Null \<noteq> ''$0''"
  by (simp add: FormatCompact_def IsEmpty_def IsNan_def)

text \<open>Where the host's quotient and product of the numbers at hand are the exact ones,
  the number that is rounded is the value divided by the scale, with its sign.\<close>

lemma compact_formats_exact_host:
  assumes "\<And>a d. d \<noteq> 0 \<Longrightarrow> host_div P (Num a) (Num d) = Num (a / d)"
    and "\<And>a s. host_mul P (Num a) (Num s) = Num (a * s)"
  shows "divide_val P (Num r) (Num 1000) = Num (r / 1000)"
    and "mul P (divide_val P (Num \<bar>r\<bar>) (Num 1000)) (Num (if r < 0 then - 1 else 1))
           = Num (r / 1000)"
    and "mul P (Num \<bar>r\<bar>) (Num (if r < 0 then - 1 else 1)) = Num r"
  using assms
  by (simp_all add: divide_val_def mul_def arith_def Number_Num numeric_def abs_if)

text \<open>The formatter of the cost script has no test for NaN; a NaN input takes the last
  branch.\<close>

lemma formatCompact_NaN:
  "formatCompact P NaN =
     ''$'' @ toText P (Round P (divide_val P NaN (Num 1000000000)) 1) @ ''B''"
  by (simp add: formatCompact_def IsEmpty_def Let_def Abs_def lt_def num_less_def Number_def)

section \<open>Weighted averages\<close>

lemma gt_Number: "gt P (Number P v) b = gt P v b"
  by (simp add: gt_def Number_idem)

lemma empty_not_positive: "IsEmpty v \<Longrightarrow> \<not> gt P v (Num 0)"
  by (auto simp: IsEmpty_def Number_def gt_def num_less_def)

lemma present_positive_iff: "present_positive P v = gt P v (Num 0)"
  using empty_not_positive [of v P] by (auto simp: present_positive_def)

lemma positive_not_zero: "gt P w (Num 0) \<Longrightarrow> w \<noteq> Num 0"
  by (auto simp: compare_Num)

lemma aadt_accumulate_Cons:
  assumes "f ''AADT'' = Some v" and "f ''Total_Miles'' = Some w"
  shows "aadt_accumulate P (f # fs) (s, m) =
     (if both_positive P ''AADT'' ''Total_Miles'' f
      then aadt_accumulate P fs (add P s (mul P (Number P v) (Number P w)), add P m (Number P w))
      else aadt_accumulate P fs (s, m))"
proof -
  have "(\<not> IsEmpty v \<and> \<not> IsEmpty w \<and> gt P (Number P v) (Num 0) \<and> gt P (Number P w) (Num 0))
      = both_positive P ''AADT'' ''Total_Miles'' f"
    using assms by (auto simp: both_positive_def present_positive_def GetVal_Some gt_Number)
  then show ?thesis
    using assms by (simp add: index_def)
qed

lemma aadt_accumulate_foldl:
  assumes "\<forall>f \<in> set fs. HasKey f ''AADT'' \<and> HasKey f ''Total_Miles''"
  shows "aadt_accumulate P fs (s, m) =
     Inr (foldl (add P) s
            (map (\<lambda>f. mul P (Number P (GetVal f ''AADT'')) (Number P (GetVal f ''Total_Miles'')))
                 (filter (both_positive P ''AADT'' ''Total_Miles'') fs)),
          foldl (add P) m
            (map (\<lambda>f. Number P (GetVal f ''Total_Miles''))
                 (filter (both_positive P ''AADT'' ''Total_Miles'') fs)))"
  using assms
proof (induction fs arbitrary: s m)
  case Nil
  show ?case by simp
next
  case (Cons f fs)
  from Cons.prems obtain v w where v: "f ''AADT'' = Some v" and w: "f ''Total_Miles'' = Some w"
    by (auto simp: HasKey_def)
  have rest: "\<forall>f \<in> set fs. HasKey f ''AADT'' \<and> HasKey f ''Total_Miles''"
    using Cons.prems by simp
  show ?case
    using v w
    by (simp add: aadt_accumulate_Cons [OF v w] Cons.IH [OF rest] GetVal_Some
          del: aadt_accumulate.simps)
qed

lemma aadt_caseB_average:
  assumes "\<forall>f \<in> set fs. HasKey f ''AADT'' \<and> HasKey f ''Total_Miles''"
  shows "aadt_caseB P fs =
     Inr (if gt P (weight_over P (both_positive P ''AADT'' ''Total_Miles'') ''Total_Miles'' fs) (Num 0)
          then Text_fmt P (Round P (weightedAverage_spec P ''AADT'' ''Total_Miles'' fs) 0) ''#,###''
          else ''0'')"
  using positive_not_zero
    [of P "weight_over P (both_positive P ''AADT'' ''Total_Miles'') ''Total_Miles'' fs"]
  by (simp add: aadt_caseB_def aadt_accumulate_foldl [OF assms] weightedAverage_spec_def
        weight_over_def product_over_def sum_of_def)

lemma truck_accumulate_Cons:
  "truck_accumulate P (f # fs) (a, b, c, d) =
     (if both_positive P ''Truck_AADT'' ''Total_Miles'' f
      then truck_accumulate P fs
             (add P a (mul P (Number P (GetVal f ''Truck_AADT'')) (Number P (GetVal f ''Total_Miles''))),
              add P b (mul P (Number P (GetVal f ''AADT'')) (Number P (GetVal f ''Total_Miles''))),
              add P c (mul P (Number P (GetVal f ''Tons'')) (Number P (GetVal f ''Total_Miles''))),
              add P d (Number P (GetVal f ''Total_Miles'')))
      else truck_accumulate P fs (a, b, c, d))"
  by (simp add: Let_def both_positive_def present_positive_iff gt_Number)

lemma truck_accumulate_foldl:
  "truck_accumulate P fs (a, b, c, d) =
     (foldl (add P) a
        (map (\<lambda>f. mul P (Number P (GetVal f ''Truck_AADT'')) (Number P (GetVal f ''Total_Miles'')))
             (filter (both_positive P ''Truck_AADT'' ''Total_Miles'') fs)),
      foldl (add P) b
        (map (\<lambda>f. mul P (Number P (GetVal f ''AADT'')) (Number P (GetVal f ''Total_Miles'')))
             (filter (both_positive P ''Truck_AADT'' ''Total_Miles'') fs)),
      foldl (add P) c
        (map (\<lambda>f. mul P (Number P (GetVal f ''Tons'')) (Number P (GetVal f ''Total_Miles'')))
             (filter (both_positive P ''Truck_AADT'' ''Total_Miles'') fs)),
      foldl (add P) d
        (map (\<lambda>f. Number P (GetVal f ''Total_Miles''))
             (filter (both_positive P ''Truck_AADT'' ''Total_Miles'') fs)))"
proof (induction fs arbitrary: a b c d)
  case Nil
  show ?case by simp
next
  case (Cons f fs)
  show ?case
    by (simp add: truck_accumulate_Cons Cons.IH del: truck_accumulate.simps)
qed

lemma truck_caseB_average:
  "truck_caseB_values P fs =
     (if gt P (weight_over P (both_positive P ''Truck_AADT'' ''Total_Miles'') ''Total_Miles'' fs)
           (Num 0)
      then ((weightedAverage_spec P ''Truck_AADT'' ''Total_Miles'' fs,
             divide_val P
               (product_over P (both_positive P ''Truck_AADT'' ''Total_Miles'') ''AADT'' ''Total_Miles'' fs)
               (weight_over P (both_positive P ''Truck_AADT'' ''Total_Miles'') ''Total_Miles'' fs),
             divide_val P
               (product_over P (both_positive P ''Truck_AADT'' ''Total_Miles'') ''Tons'' ''Total_Miles'' fs)
               (weight_over P (both_positive P ''Truck_AADT'' ''Total_Miles'') ''Total_Miles'' fs)),
            True)
      else ((Num 0, Num 0, Num 0), False))"
  using positive_not_zero
    [of P "weight_over P (both_positive P ''Truck_AADT'' ''Total_Miles'') ''Total_Miles'' fs"]
  by (simp add: truck_caseB_values_def truck_accumulate_foldl weightedAverage_spec_def
        weight_over_def product_over_def sum_of_def)

text \<open>
  Claim C5, as amended. Every sum is added up from 0 in the order of the layer, and sums,
  products and quotients are those of the host's double arithmetic. In the AADT script,
  over a full layer whose features carry \<open>AADT\<close> and \<open>Total_Miles\<close>, the number that is
  rounded and formatted is the weighted average of the specification: sum(AADT times
  Total_Miles) / sum(Total_Miles) over the features where both are present and greater
  than 0; the text is \<open>0\<close>, and nothing is divided, when the total weight is not
  greater than 0. In the truck script the three averages are taken over the features
  whose \<open>Truck_AADT\<close> and \<open>Total_Miles\<close> are present and greater than 0, whatever
  their \<open>AADT\<close> and \<open>Tons\<close> are, so that the average of \<open>Truck_AADT\<close> is the one of
  the specification; with a total weight that is not greater than 0 nothing is divided
  and there is no data.
\<close>

theorem weighted_averages:
  "((\<forall>f \<in> set fs. HasKey f ''AADT'' \<and> HasKey f ''Total_Miles'') \<longrightarrow>
      aadt_caseB P fs =
        Inr (if gt P (weight_over P (both_positive P ''AADT'' ''Total_Miles'') ''Total_Miles'' fs)
                  (Num 0)
             then Text_fmt P (Round P (weightedAverage_spec P ''AADT'' ''Total_Miles'' fs) 0) ''#,###''
             else ''0'')) \<and>
   truck_caseB_values P fs =
     (if gt P (weight_over P (both_positive P ''Truck_AADT'' ''Total_Miles'') ''Total_Miles'' fs)
           (Num 0)
      then ((weightedAverage_spec P ''Truck_AADT'' ''Total_Miles'' fs,
             divide_val P
               (product_over P (both_positive P ''Truck_AADT'' ''Total_Miles'') ''AADT'' ''Total_Miles'' fs)
               (weight_over P (both_positive P ''Truck_AADT'' ''Total_Miles'') ''Total_Miles'' fs),
             divide_val P
               (product_over P (both_positive P ''Truck_AADT'' ''Total_Miles'') ''Tons'' ''Total_Miles'' fs)
               (weight_over P (both_positive P ''Truck_AADT'' ''Total_Miles'') ''Total_Miles'' fs)),
            True)
      else ((Num 0, Num 0, Num 0), False))"
  using aadt_caseB_average [of fs P] truck_caseB_average [of P fs]
  by blast

lemma example_numbers:
  "GetVal example_full ''AADT'' = Num 900" "GetVal example_full ''Total_Miles'' = Num 5"
  "GetVal example_full ''Truck_AADT'' = Num 90" "GetVal example_full ''Tons'' = Num 12"
  "GetVal example_second ''AADT'' = Num 700" "GetVal example_second ''Total_Miles'' = Num 3"
  "GetVal example_second ''Truck_AADT'' = Num 70" "GetVal example_second ''Tons'' = Num 8"
  by (simp_all add: GetVal_def HasKey_def example_full_def example_second_def)

lemma example_keys:
  "HasKey example_full ''AADT''" "HasKey example_full ''Total_Miles''"
  "HasKey example_second ''AADT''" "HasKey example_second ''Total_Miles''"
  by (simp_all add: HasKey_def example_full_def example_second_def)

lemma example_weights:
  "weight_over plain_host (both_positive plain_host ''AADT'' ''Total_Miles'') ''Total_Miles''
     [example_full, example_second] = Num 8"
  "product_over plain_host (both_positive plain_host ''AADT'' ''Total_Miles'') ''AADT'' ''Total_Miles''
     [example_full, example_second] = Num 6600"
  "weight_over plain_host (both_positive plain_host ''Truck_AADT'' ''Total_Miles'') ''Total_Miles''
     [example_full, example_second] = Num 8"
  "product_over plain_host (both_positive plain_host ''Truck_AADT'' ''Total_Miles'')
     ''Truck_AADT'' ''Total_Miles'' [example_full, example_second] = Num 660"
  "product_over plain_host (both_positive plain_host ''Truck_AADT'' ''Total_Miles'')
     ''AADT'' ''Total_Miles'' [example_full, example_second] = Num 6600"
  "product_over plain_host (both_positive plain_host ''Truck_AADT'' ''Total_Miles'')
     ''Tons'' ''Total_Miles'' [example_full, example_second] = Num 84"
  by (simp_all add: weight_over_def product_over_def sum_of_def both_positive_def
        present_positive_Num example_numbers Number_Num plain_host_add plain_host_mul)

text \<open>An instance, on numbers for which every sum, product and quotient is a double, so
  that the exact arithmetic of the stand-in host is double arithmetic: the weights 5 and 3
  give the averages 660 / 8, 6600 / 8 and 84 / 8.\<close>

theorem weighted_averages_witness:
  "aadt_caseB plain_host [example_full, example_second] = Inr ''#'' \<and>
   aadt_caseB plain_host [] = Inr ''0'' \<and>
   truck_caseB_values plain_host [example_full, example_second]
     = ((Num 82.5, Num 825, Num 10.5), True)"
  using weighted_averages [of "[example_full, example_second]" plain_host]
    weighted_averages [of "[]" plain_host]
  by (simp add: example_keys example_weights weightedAverage_spec_def compare_Num
        plain_host_divide plain_host_shows)
    (simp add: weight_over_def sum_of_def compare_Num)

text \<open>
  Claim C5 as stated fails for the \<open>AADT\<close> average of the truck script: the first
  feature has \<open>AADT\<close> and \<open>Total_Miles\<close> greater than 0 and should count, but its
  \<open>Truck_AADT\<close> is 0 and the script leaves it out. Every number below is a double.
\<close>

theorem truck_average_ignores_aadt_guard:
  "truck_caseB_values plain_host
     [[''Truck_AADT'' \<mapsto> Num 0, ''AADT'' \<mapsto> Num 1000, ''Tons'' \<mapsto> Num 10, ''Total_Miles'' \<mapsto> Num 5],
      [''Truck_AADT'' \<mapsto> Num 10, ''AADT'' \<mapsto> Num 100, ''Tons'' \<mapsto> Num 20, ''Total_Miles'' \<mapsto> Num 5]]
     = ((Num 10, Num 100, Num 20), True) \<and>
   weightedAverage_spec plain_host ''AADT'' ''Total_Miles''
     [[''Truck_AADT'' \<mapsto> Num 0, ''AADT'' \<mapsto> Num 1000, ''Tons'' \<mapsto> Num 10, ''Total_Miles'' \<mapsto> Num 5],
      [''Truck_AADT'' \<mapsto> Num 10, ''AADT'' \<mapsto> Num 100, ''Tons'' \<mapsto> Num 20, ''Total_Miles'' \<mapsto> Num 5]]
     = Num 550"
  by (simp add: truck_caseB_values_def Let_def GetVal_def HasKey_def compare_Num Number_Num
        plain_host_add plain_host_mul plain_host_divide weightedAverage_spec_def
        weight_over_def product_over_def sum_of_def both_positive_def present_positive_Num)

section \<open>Nothing is selected\<close>

lemma shown_none_selected:
  assumes "ds selectionID = Some sel" and "ds fullLayerID = Some full"
    and "selectedFeatures sel = []"
  shows "map_sum id out_value (script_frame sz err A B ds) = B (layer full)"
  by (simp add: frame_none_selected [OF assms] out_value_styled split: sum.splits)

lemma sum_from_foldl:
  assumes "\<forall>f \<in> set fs. HasKey f key"
  shows "sum_from P acc fs key = Inr (foldl (add P) acc (map (\<lambda>f. GetVal f key) fs))"
  using assms
proof (induction fs arbitrary: acc)
  case Nil
  show ?case by simp
next
  case (Cons f fs)
  from Cons.prems obtain v where v: "f key = Some v" by (auto simp: HasKey_def)
  have rest: "\<forall>f \<in> set fs. HasKey f key" using Cons.prems by simp
  show ?case
    using v by (simp add: index_def Cons.IH [OF rest] GetVal_Some)
qed

lemma Sum_field_total:
  assumes "\<forall>f \<in> set fs. HasKey f key"
  shows "Sum_field P fs key = Inr (field_total P key fs)"
  by (simp add: Sum_field_def sum_from_foldl [OF assms] field_total_def sum_of_def)

lemma Distinct_returns:
  assumes "\<forall>f \<in> set fs. HasKey f key"
  shows "\<exists>vs. Distinct fs key = Inr vs"
  using assms
proof (induction fs)
  case Nil
  show ?case by simp
next
  case (Cons f fs)
  then obtain v vs where "f key = Some v" and "Distinct fs key = Inr vs"
    by (auto simp: HasKey_def)
  then show ?case by (simp add: index_def)
qed

lemma corridor_title_caseB_fixed:
  assumes "\<forall>f \<in> set fs. HasKey f ''Corridor''"
  shows "corridor_title_caseB fs = Inr ''Fort Worth District Corridors with Greatest Needs''"
  using Distinct_returns [OF assms]
  by (auto simp: corridor_title_caseB_def Let_def)

text \<open>
  Claim C4, as amended. With no selected feature and the full layer there, over a layer
  whose features carry the fields that are read: the fatal-crash, projects, total-miles
  and 4D+ scripts show the formatted sum of their field, added up from 0 in the order of
  the layer with an empty value counting as 0; the cost script shows the compact format
  of the sum; the AADT script the rounded and formatted weighted average, or \<open>0\<close>; the
  truck script its three averages, or \<open>0 / 0% / 0\<close>. The corridor-title script shows a
  fixed title, not a count. Sums, products and quotients are the host's.
\<close>

theorem nothing_selected_aggregates:
  assumes "ds selectionID = Some sel" and "ds fullLayerID = Some full"
    and "selectedFeatures sel = []"
    and "\<forall>f \<in> set (layer full). \<forall>key \<in> set layer_fields. HasKey f key"
  shows
   "map_sum id out_value (fatal_crashes P ds) =
      Inr (Text_fmt P (field_total P ''Number_Of_Fatal_Crashes'' (layer full)) ''#,###'') \<and>
    map_sum id out_value (projects P ds) =
      Inr (Text_fmt P (field_total P ''Projects_Construction'' (layer full)) ''#,###'') \<and>
    map_sum id out_value (cost P ds) =
      Inr (formatCompact P (field_total P ''Project_Cost_Construction'' (layer full))) \<and>
    map_sum id out_value (total_miles P ds) =
      Inr (Text_fmt P (field_total P ''Total_Miles'' (layer full)) ''#,###.0'' @ '' mi'') \<and>
    map_sum id out_value (four_d_miles P ds) =
      Inr (Text_fmt P (field_total P ''four_D_plus_miles'' (layer full)) ''#,###.0'' @ '' mi'') \<and>
    map_sum id out_value (aadt P ds) =
      Inr (if gt P (weight_over P (both_positive P ''AADT'' ''Total_Miles'') ''Total_Miles''
                      (layer full)) (Num 0)
           then Text_fmt P (Round P (weightedAverage_spec P ''AADT'' ''Total_Miles'' (layer full)) 0)
                  ''#,###''
           else ''0'') \<and>
    map_sum id out_value (truck_stats P ds) =
      Inr (if gt P (weight_over P (both_positive P ''Truck_AADT'' ''Total_Miles'') ''Total_Miles''
                      (layer full)) (Num 0)
           then
             (let W = weight_over P (both_positive P ''Truck_AADT'' ''Total_Miles'')
                        ''Total_Miles'' (layer full);
                  numTruck = weightedAverage_spec P ''Truck_AADT'' ''Total_Miles'' (layer full);
                  numTotal = divide_val P
                    (product_over P (both_positive P ''Truck_AADT'' ''Total_Miles'')
                       ''AADT'' ''Total_Miles'' (layer full)) W;
                  numTons = divide_val P
                    (product_over P (both_positive P ''Truck_AADT'' ''Total_Miles'')
                       ''Tons'' ''Total_Miles'' (layer full)) W
              in Text_fmt P (Round P numTruck 0) ''#,###'' @ '' / ''
                 @ (if gt P numTotal (Num 0) then Text_fmt P (divide_val P numTruck numTotal) ''#%''
                    else ''0%'')
                 @ '' / '' @ FormatCompact P numTons @ '' Tons'')
           else ''0 / 0% / 0'') \<and>
    map_sum id out_value (corridor_title P ds) =
      Inr ''Fort Worth District Corridors with Greatest Needs''"
proof -
  note sh = shown_none_selected [OF assms(1-3)]
  have key: "\<And>key. key \<in> set layer_fields \<Longrightarrow> \<forall>f \<in> set (layer full). HasKey f key"
    using assms(4) by blast
  have sum: "\<And>key. key \<in> set layer_fields \<Longrightarrow>
      Sum_field P (layer full) key = Inr (field_total P key (layer full))"
    using Sum_field_total [OF key] by blast
  have 1: "map_sum id out_value (fatal_crashes P ds) =
      Inr (Text_fmt P (field_total P ''Number_Of_Fatal_Crashes'' (layer full)) ''#,###'')"
    by (simp add: fatal_crashes_def sh fatal_crashes_caseB_def sum layer_fields_def)
  have 2: "map_sum id out_value (projects P ds) =
      Inr (Text_fmt P (field_total P ''Projects_Construction'' (layer full)) ''#,###'')"
    by (simp add: projects_def sh projects_caseB_def sum layer_fields_def)
  have 3: "map_sum id out_value (cost P ds) =
      Inr (formatCompact P (field_total P ''Project_Cost_Construction'' (layer full)))"
    by (simp add: cost_def sh cost_caseB_def sum layer_fields_def)
  have 4: "map_sum id out_value (total_miles P ds) =
      Inr (Text_fmt P (field_total P ''Total_Miles'' (layer full)) ''#,###.0'' @ '' mi'')"
    by (simp add: total_miles_def sh total_miles_caseB_def sum layer_fields_def)
  have 5: "map_sum id out_value (four_d_miles P ds) =
      Inr (Text_fmt P (field_total P ''four_D_plus_miles'' (layer full)) ''#,###.0'' @ '' mi'')"
    by (simp add: four_d_miles_def sh four_d_caseB_def sum layer_fields_def)
  have keys: "\<forall>f \<in> set (layer full). HasKey f ''AADT'' \<and> HasKey f ''Total_Miles''"
    using key [of "''AADT''"] key [of "''Total_Miles''"] by (simp add: layer_fields_def)
  have 6: "map_sum id out_value (aadt P ds) =
      Inr (if gt P (weight_over P (both_positive P ''AADT'' ''Total_Miles'') ''Total_Miles''
                      (layer full)) (Num 0)
           then Text_fmt P (Round P (weightedAverage_spec P ''AADT'' ''Total_Miles'' (layer full)) 0)
                  ''#,###''
           else ''0'')"
    by (simp add: aadt_def sh aadt_caseB_average [OF keys])
  have 7: "map_sum id out_value (truck_stats P ds) =
      Inr (if gt P (weight_over P (both_positive P ''Truck_AADT'' ''Total_Miles'') ''Total_Miles''
                      (layer full)) (Num 0)
           then
             (let W = weight_over P (both_positive P ''Truck_AADT'' ''Total_Miles'')
                        ''Total_Miles'' (layer full);
                  numTruck = weightedAverage_spec P ''Truck_AADT'' ''Total_Miles'' (layer full);
                  numTotal = divide_val P
                    (product_over P (both_positive P ''Truck_AADT'' ''Total_Miles'')
                       ''AADT'' ''Total_Miles'' (layer full)) W;
                  numTons = divide_val P
                    (product_over P (both_positive P ''Truck_AADT'' ''Total_Miles'')
                       ''Tons'' ''Total_Miles'' (layer full)) W
              in Text_fmt P (Round P numTruck 0) ''#,###'' @ '' / ''
                 @ (if gt P numTotal (Num 0) then Text_fmt P (divide_val P numTruck numTotal) ''#%''
                    else ''0%'')
                 @ '' / '' @ FormatCompact P numTons @ '' Tons'')
           else ''0 / 0% / 0'')"
    using positive_not_zero
      [of P "weight_over P (both_positive P ''Truck_AADT'' ''Total_Miles'') ''Total_Miles'' (layer full)"]
    by (simp add: truck_stats_def sh truck_caseB_def truck_caseB_average truck_format_def Let_def
          weightedAverage_spec_def divide_val_def Number_arith)
  have cor: "\<forall>f \<in> set (layer full). HasKey f ''Corridor''"
    using key [of "''Corridor''"] by (simp add: layer_fields_def)
  have 8: "map_sum id out_value (corridor_title P ds) =
      Inr ''Fort Worth District Corridors with Greatest Needs''"
    by (simp add: corridor_title_def sh corridor_title_caseB_fixed [OF cor])
  from 1 2 3 4 5 6 7 8 show ?thesis by blast
qed

lemma example_layer_fields:
  "\<forall>f \<in> set [example_full, example_second]. \<forall>key \<in> set layer_fields. HasKey f key"
  by (simp add: layer_fields_def HasKey_def example_full_def example_second_def)

lemma example_totals:
  "field_total plain_host ''Project_Cost_Construction'' [example_full, example_second] = Num 3000000"
  by (simp add: field_total_def sum_of_def GetVal_def HasKey_def example_full_def
        example_second_def plain_host_add)

text \<open>An instance, on the two example features of the full layer: the cost adds up to
  3000000 and is shown with the suffix M.\<close>

theorem nothing_selected_aggregates_witness:
  "map_sum id out_value (fatal_crashes plain_host (example_sources [] [example_full, example_second]))
     = Inr ''#'' \<and>
   map_sum id out_value (projects plain_host (example_sources [] [example_full, example_second]))
     = Inr ''#'' \<and>
   map_sum id out_value (cost plain_host (example_sources [] [example_full, example_second]))
     = Inr ''$#M'' \<and>
   map_sum id out_value (total_miles plain_host (example_sources [] [example_full, example_second]))
     = Inr ''# mi'' \<and>
   map_sum id out_value (four_d_miles plain_host (example_sources [] [example_full, example_second]))
     = Inr ''# mi'' \<and>
   map_sum id out_value (aadt plain_host (example_sources [] [example_full, example_second]))
     = Inr ''#'' \<and>
   map_sum id out_value (truck_stats plain_host (example_sources [] [example_full, example_second]))
     = Inr ''# / # / # Tons'' \<and>
   map_sum id out_value (corridor_title plain_host (example_sources [] [example_full, example_second]))
     = Inr ''Fort Worth District Corridors with Greatest Needs''"
proof -
  have c: "formatCompact plain_host (Num 3000000) = ''$#M''"
    by (simp add: formatCompact_def IsEmpty_def Let_def Abs_def compare_Num Number_Num
          plain_host_shows toText_def plain_host_divide)
  have t: "FormatCompact plain_host (Num (21 / 2)) = ''#''"
    by (simp add: FormatCompact_def IsEmpty_def IsNan_def Let_def Abs_def compare_Num Number_Num
          plain_host_shows)
  show ?thesis
    using nothing_selected_aggregates
      [where ds = "example_sources [] [example_full, example_second]" and P = plain_host,
       OF example_sources_selection example_sources_full]
      example_layer_fields
    by (simp add: example_totals example_weights weightedAverage_spec_def compare_Num
          plain_host_divide plain_host_shows c t)
qed

text \<open>
  Claim C4 as stated fails in the corridor-title script: over a layer with no corridor
  and over one with two distinct corridors it shows the same fixed title.
\<close>

theorem corridor_title_shows_no_count:
  "map_sum id out_value (corridor_title plain_host (example_sources [] []))
     = Inr ''Fort Worth District Corridors with Greatest Needs'' \<and>
   map_sum id out_value (corridor_title plain_host (example_sources [] [example_full, example_second]))
     = Inr ''Fort Worth District Corridors with Greatest Needs'' \<and>
   Distinct [] ''Corridor'' = Inr [] \<and>
   Distinct [example_full, example_second] ''Corridor'' = Inr [Str ''I-35W'', Str ''US-287'']"
  by (simp add: corridor_title_def
        shown_none_selected [OF example_sources_selection example_sources_full]
        corridor_title_caseB_def index_def example_full_def example_second_def)

end
